theory Spec2Isabelle
  imports Main "HOL-Library.Word"
begin

unbundle bit_operations_syntax

section \<open>Python values, bytes and exceptions\<close>

text \<open>
  A \<^verbatim>\<open>bytes\<close> object is a list of 8-bit words; a Python \<^verbatim>\<open>int\<close> is an
  unbounded \<^typ>\<open>int\<close>. Every exception the modelled code can raise is a constructor of
  \<open>error\<close>, and a function that may raise returns \<open>error + 'a\<close> with \<open>Inl\<close> the
  exception.
\<close>

type_synonym byte = "8 word"

datatype error =
    StructError
  | IndexError
  | KeyError
  | TypeError
  | ValueError
  | NameError
  | AttributeError
  | DeserializerApiMissingError int
  | DeserializerEventMissingError int int
  | ConnectorException
  | BinasciiError

text \<open>Sequencing of computations that may raise: the first exception propagates.\<close>

definition ebind :: "error + 'a \<Rightarrow> ('a \<Rightarrow> error + 'b) \<Rightarrow> error + 'b" where
  "ebind r f = (case r of Inl e \<Rightarrow> Inl e | Inr v \<Rightarrow> f v)"

section \<open>serdeser.py: the wire header\<close>

text \<open>
  \<^verbatim>\<open>struct.pack("<B", x)\<close> accepts exactly the integers \<open>0..255\<close> and raises
  \<^verbatim>\<open>struct.error\<close> otherwise.
\<close>

definition pack_B :: "int \<Rightarrow> error + byte" where
  "pack_B x = (if 0 \<le> x \<and> x \<le> 255 then Inr (word_of_int x) else Inl StructError)"

fun pack_Bs :: "int list \<Rightarrow> error + byte list" where
  "pack_Bs [] = Inr []"
| "pack_Bs (x # xs) =
     (case pack_B x of Inl e \<Rightarrow> Inl e
      | Inr b \<Rightarrow> (case pack_Bs xs of Inl e \<Rightarrow> Inl e | Inr bs \<Rightarrow> Inr (b # bs)))"

definition MSG_COMMAND :: int where "MSG_COMMAND = 0"
definition MSG_EVENT :: int where "MSG_EVENT = 1"
definition HEADER_LENGTH :: nat where "HEADER_LENGTH = 4"

text \<open>
  \<^verbatim>\<open>make_header\<close>: Python's \<^verbatim>\<open><<\<close>, \<^verbatim>\<open>>>\<close>, \<^verbatim>\<open>|\<close> and \<^verbatim>\<open>&\<close> on unbounded
  integers, then \<^verbatim>\<open>struct.pack("<4B", ...)\<close>.
\<close>

definition make_header :: "int \<Rightarrow> int \<Rightarrow> int \<Rightarrow> int \<Rightarrow> int \<Rightarrow> error + byte list" where
  "make_header msg_type device_id class_id command_id payload_len =
     pack_Bs [push_bit 7 msg_type OR push_bit 3 device_id OR drop_bit 8 payload_len,
              payload_len AND 0xff, class_id, command_id]"

text \<open>\<^verbatim>\<open>operator.getitem(header, i)\<close> on bytes: an int, or IndexError out of range.\<close>

definition getitem :: "byte list \<Rightarrow> nat \<Rightarrow> error + int" where
  "getitem bs i = (if i < length bs then Inr (uint (bs ! i)) else Inl IndexError)"

type_synonym hfields = "int \<times> int \<times> int \<times> int \<times> int"

definition parseHeader :: "byte list \<Rightarrow> error + hfields" where
  "parseHeader header =
     ebind (getitem header 0) (\<lambda>h0.
     ebind (getitem header 1) (\<lambda>h1.
     ebind (getitem header 2) (\<lambda>h2.
     ebind (getitem header 3) (\<lambda>h3.
       Inr (drop_bit 7 (h0 AND 0x80), drop_bit 3 (h0 AND 0x78),
            push_bit 8 (h0 AND 0x7) OR h1, h2, h3)))))"

section \<open>Header round trip\<close>

lemma header_masks:
  "(0x80::int) = push_bit 7 1" "(0x78::int) = push_bit 3 (mask 4)"
  "(0x7::int) = mask 3" "(0xff::int) = mask 8"
  by (simp_all add: mask_eq_exp_minus_1)

lemma first_byte_fields:
  fixes m d p :: int
  defines "b0 \<equiv> push_bit 7 (take_bit 1 m) OR push_bit 3 (take_bit 4 d)
                   OR drop_bit 8 (take_bit 11 p)"
  shows "take_bit 8 b0 = b0"
    and "drop_bit 7 (b0 AND push_bit 7 1) = take_bit 1 m"
    and "drop_bit 3 (b0 AND push_bit 3 (mask 4)) = take_bit 4 d"
    and "push_bit 8 (b0 AND mask 3) OR (take_bit 11 p AND mask 8) = take_bit 11 p"
  unfolding b0_def by (rule bit_eqI; auto simp: bit_simps)+

lemma first_byte:
  fixes mt dev plen :: int
  assumes "mt = 0 \<or> mt = 1" "0 \<le> dev" "dev < 16" "0 \<le> plen" "plen \<le> 2047"
  defines "b0 \<equiv> push_bit 7 mt OR push_bit 3 dev OR drop_bit 8 plen"
  shows "0 \<le> b0" "b0 \<le> 255" "drop_bit 7 (b0 AND 0x80) = mt"
    "drop_bit 3 (b0 AND 0x78) = dev"
    "push_bit 8 (b0 AND 0x7) OR (plen AND 0xff) = plen"
proof -
  have m: "take_bit 1 mt = mt" using assms(1) by auto
  have d: "take_bit 4 dev = dev" using assms by (simp add: take_bit_int_eq_self)
  have p: "take_bit 11 plen = plen" using assms by (simp add: take_bit_int_eq_self)
  note g = first_byte_fields [of mt dev plen, unfolded m d p, folded b0_def]
  show "0 \<le> b0" using assms by (auto simp: b0_def)
  have "b0 < 2 ^ 8" using g(1) by (metis take_bit_int_less_exp)
  then show "b0 \<le> 255" by simp
  show "drop_bit 7 (b0 AND 0x80) = mt" using g(2) by (simp only: header_masks)
  show "drop_bit 3 (b0 AND 0x78) = dev" using g(3) by (simp only: header_masks)
  show "push_bit 8 (b0 AND 0x7) OR (plen AND 0xff) = plen"
    using g(4) by (simp only: header_masks)
qed

lemma uint_pack: "0 \<le> x \<Longrightarrow> x \<le> 255 \<Longrightarrow> uint (word_of_int x :: byte) = x"
  by (simp add: uint_word_of_int take_bit_int_eq_self)

text \<open>
  C7. For every msg_type in {0,1}, device_id below 16, class_id and command_id below 256
  and payload_len at most 2047, \<^verbatim>\<open>make_header\<close> returns four bytes and
  \<^verbatim>\<open>parseHeader\<close> of them is exactly (msg_type, device_id, payload_len, class_id,
  command_id).
\<close>

theorem C7_header_roundtrip:
  assumes "mt = 0 \<or> mt = 1" "0 \<le> dev" "dev < 16" "0 \<le> cls" "cls < 256"
    "0 \<le> cmd" "cmd < 256" "0 \<le> plen" "plen \<le> 2047"
  shows "\<exists>h. make_header mt dev cls cmd plen = Inr h \<and> length h = 4 \<and>
             parseHeader h = Inr (mt, dev, plen, cls, cmd)"
proof -
  note h = first_byte [OF assms(1,2,3,8,9)]
  have lo: "0 \<le> plen AND 0xff" "plen AND 0xff \<le> 255"
    using assms(8) by (simp_all add: AND_upper2')
  show ?thesis
    using h lo assms(4-7)
    by (simp add: make_header_def pack_B_def parseHeader_def getitem_def ebind_def uint_pack)
qed

theorem C7_header_roundtrip_witness:
  "\<exists>h. make_header 1 3 0x12 0x34 0x2a5 = Inr h \<and> length h = 4 \<and>
       parseHeader h = Inr (1, 3, 0x2a5, 0x12, 0x34)"
  using C7_header_roundtrip [of 1 3 "0x12" "0x34" "0x2a5"] by simp

section \<open>robustconnector.py: the reliable framer\<close>

definition PREAMBLE_BYTE :: int where "PREAMBLE_BYTE = 0x5A"
definition HEADER_SIZE :: int where "HEADER_SIZE = 3"
definition MAX_PAYLOAD_LENGTH :: int where "MAX_PAYLOAD_LENGTH = 2047"
definition CRC_PRESENT_FLAG :: int where "CRC_PRESENT_FLAG = 0x10"
definition PAYLOAD_LENGTH_MASK :: int where "PAYLOAD_LENGTH_MASK = 0xE0"

definition to_byte :: "int \<Rightarrow> error + byte" where
  "to_byte x = (if 0 \<le> x \<and> x < 256 then Inr (word_of_int x) else Inl ValueError)"

definition crc4_table :: "int list" where
  "crc4_table = [0x0, 0x7, 0xe, 0x9, 0x5, 0x2, 0xb, 0xc, 0xa, 0xd, 0x4, 0x3, 0xf, 0x8, 0x1, 0x6]"

text \<open>
  Indexing the constant table: Python accepts \<open>-len \<le> idx < len\<close>, counting a negative
  index from the end, and raises IndexError outside that range.
\<close>

definition list_get :: "int list \<Rightarrow> int \<Rightarrow> error + int" where
  "list_get table idx =
     (if idx < - int (length table) \<or> int (length table) \<le> idx then Inl IndexError
      else if idx < 0 then Inr (table ! nat (int (length table) + idx))
      else Inr (table ! nat idx))"

fun crc4_loop :: "byte list \<Rightarrow> nat list \<Rightarrow> int \<Rightarrow> error + int" where
  "crc4_loop data [] crc = Inr crc"
| "crc4_loop data (i # is) crc =
     (let shift = (if i mod 2 = 0 then 4 else 0 :: nat) in
      case getitem data (i div 2) of Inl e \<Rightarrow> Inl e
      | Inr b \<Rightarrow>
          (let nibble = drop_bit shift b AND 0x0F in
           case list_get crc4_table (crc XOR nibble) of Inl e \<Rightarrow> Inl e
           | Inr c \<Rightarrow> crc4_loop data is c))"

definition crc4 :: "byte list \<Rightarrow> nat \<Rightarrow> error + int" where
  "crc4 data nibbles = crc4_loop data [0..<nibbles] 0xa"

definition crc8_step :: "int \<Rightarrow> int" where
  "crc8_step crc = push_bit 1 (if crc AND 0x8000 \<noteq> 0 then crc XOR push_bit 3 0x1070 else crc)"

definition crc8_byte :: "byte \<Rightarrow> int \<Rightarrow> int" where
  "crc8_byte b crc = (crc8_step ^^ 8) (crc XOR push_bit 8 (uint b))"

definition crc8 :: "byte list \<Rightarrow> int" where
  "crc8 data = drop_bit 8 (fold crc8_byte data 0) AND 0xFF"

definition pack :: "byte list \<Rightarrow> bool \<Rightarrow> error + byte list" where
  "pack data crc =
     (if int (length data) > MAX_PAYLOAD_LENGTH then Inl ConnectorException
      else
        ebind (to_byte PREAMBLE_BYTE) (\<lambda>p0.
        ebind (to_byte (int (length data) AND 0xFF)) (\<lambda>p1.
        ebind (to_byte (drop_bit 3 (int (length data)) AND PAYLOAD_LENGTH_MASK)) (\<lambda>p2.
        ebind (if crc then to_byte (uint p2 OR CRC_PRESENT_FLAG) else Inr p2) (\<lambda>p2.
        ebind (crc4 [p1, p2] 3) (\<lambda>c.
        ebind (to_byte (uint p2 OR c)) (\<lambda>p2.
          if crc then ebind (to_byte (crc8 data)) (\<lambda>c8. Inr ([p0, p1, p2] @ data @ [c8]))
          else Inr ([p0, p1, p2] @ data))))))))"

fun bytes_find :: "byte list \<Rightarrow> int \<Rightarrow> int" where
  "bytes_find [] b = -1"
| "bytes_find (x # xs) b =
     (if uint x = b then 0 else (let r = bytes_find xs b in if r < 0 then -1 else r + 1))"

definition conn_read :: "int \<Rightarrow> byte list \<Rightarrow> (byte list \<times> byte list) option" where
  "conn_read sz stream =
     (if sz \<le> 0 then Some ([], stream)
      else if int (length stream) < sz then None
      else Some (take (nat sz) stream, drop (nat sz) stream))"

datatype step = Stop | Next "byte list" "byte list" | Deliver "byte list" "byte list"

definition read_payload :: "int \<Rightarrow> bool \<Rightarrow> byte list \<Rightarrow> step" where
  "read_payload payload_size crc_req stream =
     (case conn_read payload_size stream of
        None \<Rightarrow> Stop
      | Some (payload, rest) \<Rightarrow>
          if crc_req then
            (case conn_read 1 rest of
               None \<Rightarrow> Stop
             | Some (crc, rest') \<Rightarrow>
                 (case getitem crc 0 of
                    Inl e \<Rightarrow> Stop
                  | Inr c0 \<Rightarrow> if c0 \<noteq> crc8 payload then Next [] rest'
                             else Deliver payload rest'))
          else Deliver payload rest)"

definition check_header :: "byte list \<Rightarrow> byte list \<Rightarrow> step" where
  "check_header header stream =
     (let preamble = bytes_find header PREAMBLE_BYTE in
      if preamble < 0 then Next [] stream
      else if preamble > 0 then Next (drop (nat preamble) header) stream
      else
        (case crc4 (drop 1 header) 4 of
           Inl e \<Rightarrow> Stop
         | Inr c \<Rightarrow>
             if c \<noteq> 0 then Next (drop 1 header) stream
             else
               (case ebind (getitem header 1) (\<lambda>h1.
                     ebind (getitem header 2) (\<lambda>h2.
                       Inr (h1 OR push_bit 3 (h2 AND PAYLOAD_LENGTH_MASK),
                            h2 AND CRC_PRESENT_FLAG \<noteq> 0))) of
                  Inl e \<Rightarrow> Stop
                | Inr (payload_size, crc_req) \<Rightarrow> read_payload payload_size crc_req stream)))"

definition run_step :: "byte list \<Rightarrow> byte list \<Rightarrow> step" where
  "run_step header stream =
     (case conn_read (HEADER_SIZE - int (length header)) stream of
        None \<Rightarrow> Stop
      | Some (data, rest) \<Rightarrow> check_header (header @ data) rest)"

lemma bytes_find_le: "bytes_find xs b < int (length xs)"
  by (induction xs) (auto simp: Let_def)

lemma bytes_find_nonneg: "0 \<le> bytes_find xs b \<Longrightarrow> xs \<noteq> []"
  by (cases xs) auto

lemma conn_read_len:
  assumes "conn_read n s = Some (d, r)"
  shows "length d + length r = length s" "0 < n \<Longrightarrow> length d = nat n" "n \<le> 0 \<Longrightarrow> d = []"
  using assms by (auto simp: conn_read_def split: if_splits)

lemma read_payload_len:
  "read_payload n c s = Next h' s' \<Longrightarrow> h' = [] \<and> length s' < length s"
  "read_payload n c s = Deliver p s' \<Longrightarrow> length s' \<le> length s"
  by (auto simp: read_payload_def getitem_def simp flip: length_greater_0_conv
           split: option.splits if_splits sum.splits dest!: conn_read_len(1))

lemma check_header_len:
  "check_header h s = Next h' s' \<Longrightarrow>
     length s' \<le> length s \<and> (length h' < length h \<or> (h' = [] \<and> length s' < length s) \<or> (h = [] \<and> h' = []))"
  "check_header h s = Deliver p s' \<Longrightarrow> length s' \<le> length s"
  by (cases h; auto simp: check_header_def Let_def ebind_def split: if_splits sum.splits
           dest: read_payload_len)+

lemma run_step_measure:
  "run_step h s = Next h' s' \<Longrightarrow> 4 * length s' + length h' < 4 * length s + length h"
  "run_step h s = Deliver p s' \<Longrightarrow> 4 * length s' < 4 * length s + length h"
proof -
  { fix d r assume rd: "conn_read (HEADER_SIZE - int (length h)) s = Some (d, r)"
    have a: "length d + length r = length s" using conn_read_len(1)[OF rd] .
    have b: "length h < 3 \<Longrightarrow> length d = 3 - length h"
      using conn_read_len(2)[OF rd] by (simp add: HEADER_SIZE_def)
    have c: "3 \<le> length h \<Longrightarrow> d = []"
      using conn_read_len(3)[OF rd] by (simp add: HEADER_SIZE_def)
    note a b c } note rd = this
  show "run_step h s = Next h' s' \<Longrightarrow> 4 * length s' + length h' < 4 * length s + length h"
    apply (clarsimp simp: run_step_def split: option.splits)
    subgoal for d r
      using rd[of d r] check_header_len(1)[of "h @ d" r h' s']
      by (cases "length h < 3") auto
    done
  show "run_step h s = Deliver p s' \<Longrightarrow> 4 * length s' < 4 * length s + length h"
    apply (clarsimp simp: run_step_def split: option.splits)
    subgoal for d r
      using rd[of d r] check_header_len(2)[of "h @ d" r p s']
      by (cases "length h < 3") auto
    done
qed

function run :: "byte list \<Rightarrow> byte list \<Rightarrow> byte list list" where
  "run header stream =
     (case run_step header stream of
        Stop \<Rightarrow> []
      | Next header' stream' \<Rightarrow> run header' stream'
      | Deliver payload stream' \<Rightarrow> payload # run [] stream')"
  by pat_completeness auto
termination
  by (relation "measure (\<lambda>(h, s). 4 * length s + length h)") (auto dest: run_step_measure)

declare run.simps [simp del]



lemma fmasks:
  "(0xE0::int) = push_bit 5 (mask 3)" "(0x10::int) = push_bit 4 1"
  "(0xFF::int) = mask 8" "(0x0F::int) = mask 4" "(0xF::int) = mask 4"
  by (simp_all add: mask_eq_exp_minus_1)

lemma nib_range: "0 \<le> (x::int) AND 0x0F" "(x::int) AND 0x0F < 16"
  by (simp_all add: AND_upper2'' )

lemma xor_range:
  fixes a b :: int
  assumes "0 \<le> a" "a < 16" "0 \<le> b" "b < 16"
  shows "0 \<le> a XOR b" "a XOR b < 16"
proof -
  have "a = take_bit 4 a" "b = take_bit 4 b" using assms by (simp_all add: take_bit_int_eq_self)
  then have "a XOR b = take_bit 4 (a XOR b)" by (metis take_bit_xor)
  then have "a XOR b < 2 ^ 4" by (metis take_bit_int_less_exp)
  then show "a XOR b < 16" by simp
  show "0 \<le> a XOR b" using assms by simp
qed

lemma table_range:
  assumes "0 \<le> i" "i < 16"
  shows "\<exists>c. list_get crc4_table i = Inr c \<and> 0 \<le> c \<and> c < 16"
proof -
  have "nat i < 16" using assms by simp
  then have "nat i \<in> {0..<16}" by simp
  then have "0 \<le> crc4_table ! nat i \<and> crc4_table ! nat i < 16"
    unfolding crc4_table_def atLeastLessThan_upt
    by (simp add: upt_rec) (elim disjE; simp)
  then show ?thesis using assms by (simp add: list_get_def crc4_table_def)
qed


lemma upt_3: "[0..<3] = [0, 1, 2]" and upt_4: "[0..<4] = [0, 1, 2, 3]"
  by (simp_all add: upt_rec)

lemma table_zero: "list_get crc4_table 0 = Inr 0"
  by (simp add: list_get_def crc4_table_def)

lemma crc4_closure:
  "\<exists>c. crc4 [p1, p2] 3 = Inr c \<and> 0 \<le> c \<and> c < 16 \<and>
       (\<forall>q. drop_bit 4 (uint q) AND 0x0F = drop_bit 4 (uint p2) AND 0x0F \<longrightarrow>
            uint q AND 0x0F = c \<longrightarrow> crc4 [p1, q] 4 = Inr 0)"
proof -
  let ?n0 = "drop_bit 4 (uint p1) AND 0x0F"
  let ?n1 = "uint p1 AND 0x0F"
  let ?n2 = "drop_bit 4 (uint p2) AND 0x0F"
  have a: "0 \<le> (0xa::int)" "(0xa::int) < 16" by simp_all
  obtain c0 where c0: "list_get crc4_table (0xa XOR ?n0) = Inr c0" "0 \<le> c0" "c0 < 16"
    using table_range [OF xor_range [OF a nib_range]] by blast
  obtain c1 where c1: "list_get crc4_table (c0 XOR ?n1) = Inr c1" "0 \<le> c1" "c1 < 16"
    using table_range [OF xor_range [OF c0(2,3) nib_range]] by blast
  obtain c2 where c2: "list_get crc4_table (c1 XOR ?n2) = Inr c2" "0 \<le> c2" "c2 < 16"
    using table_range [OF xor_range [OF c1(2,3) nib_range]] by blast
  have three: "crc4 [p1, p2] 3 = Inr c2"
    using c0(1) c1(1) c2(1) by (simp add: crc4_def upt_3 getitem_def)
  have four: "crc4 [p1, q] 4 = Inr 0"
    if "drop_bit 4 (uint q) AND 0x0F = ?n2" "uint q AND 0x0F = c2" for q
    using c0(1) c1(1) c2(1) that table_zero by (simp add: crc4_def upt_4 getitem_def)
  show ?thesis using three c2(2,3) four by blast
qed


lemma second_byte_bits:
  fixes n c :: int and crc :: bool
  defines "x \<equiv> (drop_bit 3 (take_bit 11 n) AND push_bit 5 (mask 3)) OR push_bit 4 (of_bool crc)"
  shows "take_bit 8 (drop_bit 3 (take_bit 11 n) AND push_bit 5 (mask 3)) = drop_bit 3 (take_bit 11 n) AND push_bit 5 (mask 3)"
    and "take_bit 8 x = x"
    and "take_bit 8 (x OR take_bit 4 c) = x OR take_bit 4 c"
    and "drop_bit 4 (x OR take_bit 4 c) AND mask 4 = drop_bit 4 x AND mask 4"
    and "(x OR take_bit 4 c) AND mask 4 = take_bit 4 c"
    and "(take_bit 11 n AND mask 8) OR push_bit 3 ((x OR take_bit 4 c) AND push_bit 5 (mask 3)) = take_bit 11 n"
    and "bit (x OR take_bit 4 c) 4 \<longleftrightarrow> crc"
  unfolding x_def by ((rule bit_eqI)?; auto simp: bit_simps)+

lemma flag_bit: "((y::int) AND 0x10 \<noteq> 0) \<longleftrightarrow> bit y 4"
  using and_exp_eq_0_iff_not_bit [of y 4] by simp

lemma to_byte_ok:
  assumes "take_bit 8 x = x"
  shows "to_byte x = Inr (word_of_int x)" "uint (word_of_int x :: byte) = x"
proof -
  have "0 \<le> x" "x < 2 ^ 8"
    using assms by (metis take_bit_nonnegative, metis take_bit_int_less_exp)
  then show "to_byte x = Inr (word_of_int x)" by (simp add: to_byte_def)
  show "uint (word_of_int x :: byte) = x" using \<open>0 \<le> x\<close> \<open>x < 2 ^ 8\<close> by (simp add: uint_pack)
qed

lemma crc8_byte_range: "take_bit 8 (crc8 data) = crc8 data"
  unfolding crc8_def by (rule bit_eqI) (auto simp: fmasks bit_simps)

lemma pack_frame:
  assumes len: "length data \<le> 2047"
  shows "\<exists>p1 p2. pack data crc =
            Inr ([0x5A, p1, p2] @ data @ (if crc then [word_of_int (crc8 data)] else [])) \<and>
          crc4 [p1, p2] 4 = Inr 0 \<and>
          (uint p1 OR push_bit 3 (uint p2 AND PAYLOAD_LENGTH_MASK)) = int (length data) \<and>
          ((uint p2 AND CRC_PRESENT_FLAG \<noteq> 0) = crc)"
proof -
  define n where "n = int (length data)"
  define hi where "hi = drop_bit 3 n AND 0xE0"
  define x where "x = hi OR push_bit 4 (of_bool crc)"
  have n11: "take_bit 11 n = n" using len by (simp add: n_def take_bit_int_eq_self)
  have p1r: "take_bit 8 (n AND 0xFF) = n AND 0xFF"
    by (rule bit_eqI) (auto simp: fmasks bit_simps)
  define p1 :: byte where "p1 = word_of_int (n AND 0xFF)"
  note P1 = to_byte_ok [OF p1r, folded p1_def]
  note B1 = second_byte_bits(1) [where n = n, unfolded n11, folded fmasks(1), folded hi_def]
  note B2 = second_byte_bits(2) [where n = n and crc = crc, unfolded n11, folded fmasks(1),
      folded hi_def, folded x_def]
  define p2a :: byte where "p2a = word_of_int hi"
  note P2a = to_byte_ok [OF B1, folded p2a_def]
  define p2b :: byte where "p2b = word_of_int x"
  note P2b = to_byte_ok [OF B2, folded p2b_def]
  have xcrc: "x = (if crc then hi OR 0x10 else hi)" by (simp add: x_def)
  obtain c where c: "crc4 [p1, p2b] 3 = Inr c" "0 \<le> c" "c < 16"
    and cl: "\<And>q. drop_bit 4 (uint q) AND 0x0F = drop_bit 4 (uint p2b) AND 0x0F \<Longrightarrow>
            uint q AND 0x0F = c \<Longrightarrow> crc4 [p1, q] 4 = Inr 0"
    using crc4_closure [of p1 p2b] by blast
  have c4: "take_bit 4 c = c" using c by (simp add: take_bit_int_eq_self)
  note C = second_byte_bits(3-7) [where n = n and crc = crc and c = c, unfolded n11 c4,
      folded fmasks(1), folded hi_def, folded x_def]
  define p2 :: byte where "p2 = word_of_int (x OR c)"
  note P2 = to_byte_ok [OF C(1), folded p2_def]
  note P8 = to_byte_ok [OF crc8_byte_range, of data]
  have step2: "(if crc then to_byte (uint p2a OR CRC_PRESENT_FLAG) else Inr p2a) = Inr p2b"
    using P2a P2b xcrc by (auto simp: CRC_PRESENT_FLAG_def p2a_def p2b_def)
  have nle: "\<not> 2047 < n" using len by (simp add: n_def)
  have pk: "pack data crc =
      Inr ([0x5A, p1, p2] @ data @ (if crc then [word_of_int (crc8 data)] else []))"
    using nle P1(1) P2a(1) step2 c(1) P2(1) P8(1)
    by (simp add: pack_def MAX_PAYLOAD_LENGTH_def PREAMBLE_BYTE_def PAYLOAD_LENGTH_MASK_def
        to_byte_def [of "0x5A"] ebind_def n_def [symmetric] hi_def [symmetric] P2b(2))
  have z1: "drop_bit 4 (uint p2) AND 0x0F = drop_bit 4 (uint p2b) AND 0x0F"
    unfolding P2(2) P2b(2) fmasks(4) by (rule C(2))
  have z2: "uint p2 AND 0x0F = c"
    unfolding P2(2) fmasks(4) by (rule C(3))
  have z: "crc4 [p1, p2] 4 = Inr 0"
    by (rule cl [OF z1 z2])
  have sz: "uint p1 OR push_bit 3 (uint p2 AND PAYLOAD_LENGTH_MASK) = int (length data)"
    unfolding P1(2) P2(2) PAYLOAD_LENGTH_MASK_def fmasks(3) n_def [symmetric] by (rule C(4))
  have fl: "(uint p2 AND CRC_PRESENT_FLAG \<noteq> 0) = crc"
    unfolding P2(2) CRC_PRESENT_FLAG_def flag_bit by (rule C(5))
  show ?thesis using pk z sz fl by blast
qed

definition valid_start :: "byte list \<Rightarrow> bool" where
  "valid_start s \<longleftrightarrow>
     3 \<le> length s \<and> uint (s ! 0) = PREAMBLE_BYTE \<and> crc4 [s ! 1, s ! 2] 4 = Inr 0"

definition no_false_start :: "byte list \<Rightarrow> byte list \<Rightarrow> bool" where
  "no_false_start junk frame \<longleftrightarrow>
     list_all (\<lambda>i. \<not> valid_start (drop i (junk @ frame))) [0..<length junk]"

lemma crc4_loop_append:
  "crc4_loop data (xs @ ys) crc =
     (case crc4_loop data xs crc of Inl e \<Rightarrow> Inl e | Inr c \<Rightarrow> crc4_loop data ys c)"
  by (induction xs arbitrary: crc) (auto simp: Let_def split: sum.splits)

lemma crc4_total: "\<exists>c. crc4 [a, b] 4 = Inr c"
proof -
  obtain c where c: "crc4 [a, b] 3 = Inr c" "0 \<le> c" "c < 16"
    using crc4_closure [of a b] by blast
  obtain d where d: "list_get crc4_table (c XOR (uint b AND 0x0F)) = Inr d"
    using table_range [OF xor_range [OF c(2,3) nib_range]] by blast
  have "[0..<4] = [0..<3] @ [3]" by (simp add: upt_rec)
  then have "crc4 [a, b] 4 = crc4_loop [a, b] [3] c"
    using c(1) by (simp only: crc4_def crc4_loop_append sum.case)
  then show ?thesis using d by (simp add: getitem_def)
qed

lemma run_step_prefix:
  assumes "length h \<le> 3"
  shows "run_step h s = run_step [] (h @ s)"
proof (cases "length (h @ s) < 3")
  case True
  then show ?thesis by (simp add: run_step_def conn_read_def HEADER_SIZE_def)
next
  case False
  then have "conn_read (HEADER_SIZE - int (length h)) s
      = Some (take (3 - length h) s, drop (3 - length h) s)"
    using assms by (auto simp: conn_read_def HEADER_SIZE_def nat_diff_distrib)
  moreover have "conn_read (HEADER_SIZE - int (length ([]::byte list))) (h @ s)
      = Some (take 3 (h @ s), drop 3 (h @ s))"
    using False by (auto simp: conn_read_def HEADER_SIZE_def)
  ultimately show ?thesis using assms by (simp add: run_step_def)
qed

lemma run_prefix: "length h \<le> 3 \<Longrightarrow> run h s = run [] (h @ s)"
  using run_step_prefix [of h s] run.simps [of h s] run.simps [of "[]" "h @ s"] by simp

lemma conn_read_exact:
  "conn_read (int (length d)) (d @ r) = Some (d, r)"
  by (auto simp: conn_read_def)

lemma run_step_frame:
  assumes crc0: "crc4 [p1, p2] 4 = Inr 0"
    and sz: "uint p1 OR push_bit 3 (uint p2 AND PAYLOAD_LENGTH_MASK) = int (length data)"
    and fl: "(uint p2 AND CRC_PRESENT_FLAG \<noteq> 0) = crc"
  shows "run_step [] ([0x5A, p1, p2] @ data @ (if crc then [word_of_int (crc8 data)] else []) @ more)
           = Deliver data more"
proof -
  have rd: "read_payload (int (length data)) crc
              (data @ (if crc then [word_of_int (crc8 data)] else []) @ more) = Deliver data more"
    by (simp add: read_payload_def conn_read_exact conn_read_def getitem_def
        to_byte_ok(2) [OF crc8_byte_range])
  have "check_header [0x5A, p1, p2] (data @ (if crc then [word_of_int (crc8 data)] else []) @ more)
          = Deliver data more"
    using crc0 sz fl rd
    by (simp add: check_header_def PREAMBLE_BYTE_def getitem_def ebind_def)
  then show ?thesis
    by (simp add: run_step_def HEADER_SIZE_def conn_read_def)
qed

lemma run_short: "length s < 3 \<Longrightarrow> run [] s = []"
  by (subst run.simps) (simp add: run_step_def HEADER_SIZE_def conn_read_def)

lemma run_three:
  "run [] (a # b # c # r) =
     (case check_header [a, b, c] r of
        Stop \<Rightarrow> []
      | Next h' s' \<Rightarrow> run h' s'
      | Deliver p s' \<Rightarrow> p # run [] s')"
  by (subst run.simps) (simp add: run_step_def HEADER_SIZE_def conn_read_def)

lemma run_skip:
  "s \<noteq> [] \<Longrightarrow> \<not> valid_start s \<Longrightarrow> run [] s = run [] (tl s)"
proof (induction "length s" arbitrary: s rule: less_induct)
  case less
  show ?case
  proof (cases "length s < 3")
    case True
    then show ?thesis by (simp add: run_short)
  next
    case False
    then obtain a b c r where s: "s = a # b # c # r"
      by (metis One_nat_def Suc_1 length_Cons less_Suc_eq_0_disj list.exhaust list.size(3) not_less_eq numeral_3_eq_3)
    obtain v where v: "crc4 [b, c] 4 = Inr v" using crc4_total by blast
    have nv: "uint a = 0x5A \<Longrightarrow> v \<noteq> 0"
      using less.prems(2) v by (auto simp: valid_start_def s PREAMBLE_BYTE_def)
    have bc: "run [b, c] r = run [] (b # c # r)" using run_prefix [of "[b, c]" r] by simp
    have c1: "run [c] r = run [] (c # r)" using run_prefix [of "[c]" r] by simp
    have ih1: "uint b \<noteq> 0x5A \<Longrightarrow> run [] (b # c # r) = run [] (c # r)"
      using less.hyps [of "b # c # r"] by (simp add: s valid_start_def PREAMBLE_BYTE_def)
    have ih2: "uint c \<noteq> 0x5A \<Longrightarrow> run [] (c # r) = run [] r"
      using less.hyps [of "c # r"] by (simp add: s valid_start_def PREAMBLE_BYTE_def)
    show ?thesis
      unfolding s run_three
      using v nv bc c1 ih1 ih2
      by (simp add: check_header_def PREAMBLE_BYTE_def)
  qed
qed

lemma run_junk:
  "no_false_start junk frame \<Longrightarrow> run [] (junk @ frame) = run [] frame"
proof (induction junk)
  case Nil
  then show ?case by simp
next
  case (Cons j js)
  have every: "\<forall>i<Suc (length js). \<not> valid_start (drop i (j # js @ frame))"
    using Cons.prems by (auto simp: no_false_start_def list_all_iff less_Suc_eq)
  have a: "\<not> valid_start ((j # js) @ frame)"
    using every [rule_format, of 0] by simp
  have b: "no_false_start js frame"
    unfolding no_false_start_def list_all_iff
  proof
    fix i assume "i \<in> set [0..<length js]"
    then have "Suc i < Suc (length js)" by simp
    from every [rule_format, OF this] show "\<not> valid_start (drop i (js @ frame))" by simp
  qed
  show ?case using run_skip [OF _ a] Cons.IH [OF b] by simp
qed

definition hello :: "byte list" where "hello = [0x68, 0x65, 0x6c, 0x6c, 0x6f]"

definition hello_frame :: "byte list" where
  "hello_frame = [0x5A, 0x05, 0x1B, 0x68, 0x65, 0x6c, 0x6c, 0x6f, 0x92]"

text \<open>
  C8 (as amended). For every payload of at most 2047 bytes, \<^verbatim>\<open>pack\<close> returns a
  frame whose header CRC-4, recomputed over bytes 1..2, is 0, and the reader of
  \<^verbatim>\<open>RobustConnector._run\<close>, fed that frame preceded by any junk in which no position
  starts a preamble byte followed by two bytes with a valid header CRC-4
  (\<open>no_false_start\<close>), delivers exactly one frame, equal to the payload. For a longer
  input \<^verbatim>\<open>pack\<close> raises ConnectorException.
\<close>

theorem C8_framer:
  "(length data \<le> 2047 \<longrightarrow>
      (\<exists>frame. pack data crc = Inr frame \<and>
         crc4 (take 2 (drop 1 frame)) 4 = Inr 0 \<and>
         (\<forall>junk. no_false_start junk frame \<longrightarrow> run [] (junk @ frame) = [data]))) \<and>
   (2047 < length data \<longrightarrow> pack data crc = Inl ConnectorException)"
proof (intro conjI impI)
  assume len: "length data \<le> 2047"
  let ?tail = "if crc then [word_of_int (crc8 data)] else []"
  obtain p1 p2 where pk: "pack data crc = Inr ([0x5A, p1, p2] @ data @ ?tail)"
    and crc0: "crc4 [p1, p2] 4 = Inr 0"
    and sz: "uint p1 OR push_bit 3 (uint p2 AND PAYLOAD_LENGTH_MASK) = int (length data)"
    and fl: "(uint p2 AND CRC_PRESENT_FLAG \<noteq> 0) = crc"
    using pack_frame [OF len, of crc] by blast
  let ?frame = "[0x5A, p1, p2] @ data @ ?tail"
  have "run_step [] (?frame @ []) = Deliver data []"
    using run_step_frame [OF crc0 sz fl, of "[]"] by simp
  then have one: "run [] ?frame = [data]"
    by (subst run.simps) (simp add: run_short)
  have "\<forall>junk. no_false_start junk ?frame \<longrightarrow> run [] (junk @ ?frame) = [data]"
    using run_junk one by simp
  moreover have "crc4 (take 2 (drop 1 ?frame)) 4 = Inr 0" using crc0 by simp
  ultimately show "\<exists>frame. pack data crc = Inr frame \<and>
         crc4 (take 2 (drop 1 frame)) 4 = Inr 0 \<and>
         (\<forall>junk. no_false_start junk frame \<longrightarrow> run [] (junk @ frame) = [data])"
    using pk by blast
next
  assume "2047 < length data"
  then show "pack data crc = Inl ConnectorException"
    by (simp add: pack_def MAX_PAYLOAD_LENGTH_def)
qed

theorem C8_framer_witness:
  "length hello \<le> 2047 \<and> pack hello True = Inr hello_frame \<and>
   no_false_start [0xFF, 0x5A, 0xFE, 0x5A] hello_frame \<and>
   run [] ([0xFF, 0x5A, 0xFE, 0x5A] @ hello_frame) = [hello] \<and>
   crc4 (take 2 (drop 1 hello_frame)) 4 = Inr 0 \<and>
   2047 < length (replicate 2048 (0::byte)) \<and>
   pack (replicate 2048 0) True = Inl ConnectorException"
proof -
  have l: "length hello \<le> 2047" by (simp add: hello_def)
  have p: "pack hello True = Inr hello_frame" by code_simp
  have n: "no_false_start [0xFF, 0x5A, 0xFE, 0x5A] hello_frame" by code_simp
  have b: "2047 < length (replicate 2048 (0::byte))" by simp
  show ?thesis
    using C8_framer [of hello True] C8_framer [of "replicate 2048 0" True] l p n b by auto
qed

text \<open>
  The claim as stated allows arbitrary junk. Junk that is itself a valid header
  (\<^verbatim>\<open>5A 05 0C\<close>: five payload bytes, no payload CRC) makes the reader deliver the
  first five bytes of the real frame instead of its payload.
\<close>

theorem C8_junk_counterexample:
  "pack hello True = Inr hello_frame \<and>
   run [] ([0x5A, 0x05, 0x0C] @ hello_frame) = [[0x5A, 0x05, 0x1B, 0x68, 0x65]] \<and>
   [[0x5A, 0x05, 0x1B, 0x68, 0x65]] \<noteq> [hello]"
  by code_simp


section \<open>apiparser.py: the API model\<close>

datatype pyval = VNone | VInt int | VBytes "byte list" | VStr string

record ApiEnumVal =
  ev_name :: string
  ev_value :: int
  ev_description :: string

record ApiEnum =
  enum_name :: string
  enum_description :: string
  enum_names :: "string list"
  enum_items :: "pyval \<rightharpoonup> ApiEnumVal"

type_synonym ApiDefine = ApiEnum

record ApiType =
  type_name :: string
  type_base :: string
  type_length :: int

record ApiParameter =
  param_index :: int
  param_name :: string
  param_format :: string
  param_datatype :: ApiType
  validator_type :: "string option"
  validator_id :: "string option"
  param_description :: string

record ApiCommand =
  cmd_device_name :: string
  cmd_class_name :: string
  cmd_index :: int
  cmd_name :: string
  cmd_description :: string
  cmd_params :: "ApiParameter list"
  cmd_returns :: "ApiParameter list"
  no_return :: bool
  cmd_internal :: bool

record ApiEvent =
  evt_device_name :: string
  evt_class_name :: string
  evt_index :: int
  evt_name :: string
  evt_description :: string
  evt_internal :: bool
  evt_params :: "ApiParameter list"

record ApiClass =
  cls_index :: int
  cls_name :: string
  cls_description :: string
  cls_enums :: "string \<rightharpoonup> ApiEnum"
  enum_group_names :: "string list"
  cls_defines :: "string \<rightharpoonup> ApiDefine"
  define_group_names :: "string list"
  cls_commands :: "pyval \<rightharpoonup> ApiCommand"
  command_names :: "string list"
  cls_events :: "pyval \<rightharpoonup> ApiEvent"
  event_names :: "string list"

record ParsedApi =
  device_id :: int
  device_name :: string
  api_name :: string
  api_version :: "string option"
  api_names :: "string list"
  api_types :: "string \<rightharpoonup> ApiType"
  api_classes :: "pyval \<rightharpoonup> ApiClass"

definition dict_get :: "('k \<rightharpoonup> 'v) \<Rightarrow> 'k \<Rightarrow> error + 'v" where
  "dict_get d k = (case d k of None \<Rightarrow> Inl KeyError | Some v \<Rightarrow> Inr v)"

definition ApiType_None :: ApiType where
  "ApiType_None = \<lparr>type_name = [], type_base = [], type_length = 0\<rparr>"

definition ApiEnum_init :: "string \<Rightarrow> string \<Rightarrow> ApiEnumVal list \<Rightarrow> ApiEnum" where
  "ApiEnum_init name description vals =
     \<lparr>enum_name = name, enum_description = description,
      enum_names = map ev_name vals,
      enum_items = fold (\<lambda>e d. d(VStr (ev_name e) \<mapsto> e, VInt (ev_value e) \<mapsto> e)) vals Map.empty\<rparr>"

definition by_name_and_index ::
  "('a \<Rightarrow> string) \<Rightarrow> ('a \<Rightarrow> int) \<Rightarrow> 'a list \<Rightarrow> (pyval \<rightharpoonup> 'a)" where
  "by_name_and_index nm ix es = fold (\<lambda>e d. d(VStr (nm e) \<mapsto> e, VInt (ix e) \<mapsto> e)) es Map.empty"

definition by_name :: "('a \<Rightarrow> string) \<Rightarrow> 'a list \<Rightarrow> (string \<rightharpoonup> 'a)" where
  "by_name nm es = fold (\<lambda>e d. d(nm e \<mapsto> e)) es Map.empty"


section \<open>Python text and bytes helpers\<close>

definition byte_of_char :: "char \<Rightarrow> byte" where
  "byte_of_char c = word_of_nat (of_char c)"

definition char_of_byte :: "byte \<Rightarrow> char" where
  "char_of_byte b = char_of (unat b)"

definition str_isspace :: "char \<Rightarrow> bool" where
  "str_isspace c \<longleftrightarrow> (of_char c :: nat) \<in> {9, 10, 11, 12, 13, 28, 29, 30, 31, 32, 133, 160}"

definition bytes_isspace :: "char \<Rightarrow> bool" where
  "bytes_isspace c \<longleftrightarrow> (of_char c :: nat) \<in> {9, 10, 11, 12, 13, 32}"

definition py_strip :: "(char \<Rightarrow> bool) \<Rightarrow> string \<Rightarrow> string" where
  "py_strip sp s = rev (dropWhile sp (rev (dropWhile sp s)))"

definition digit_val :: "nat \<Rightarrow> char \<Rightarrow> nat option" where
  "digit_val base c =
     (let n = (of_char c :: nat);
          v = (if 48 \<le> n \<and> n \<le> 57 then Some (n - 48)
               else if 97 \<le> n \<and> n \<le> 122 then Some (n - 87)
               else if 65 \<le> n \<and> n \<le> 90 then Some (n - 55)
               else None)
      in case v of None \<Rightarrow> None | Some d \<Rightarrow> if d < base then Some d else None)"

fun int_digits :: "nat \<Rightarrow> bool \<Rightarrow> nat \<Rightarrow> string \<Rightarrow> nat option" where
  "int_digits base ok acc [] = (if ok then Some acc else None)"
| "int_digits base ok acc (c # cs) =
     (if c = CHR ''_'' then (if ok then int_digits base False acc cs else None)
      else (case digit_val base c of
              None \<Rightarrow> None
            | Some v \<Rightarrow> int_digits base True (acc * base + v) cs))"

definition skip_base_prefix :: "nat \<Rightarrow> string \<Rightarrow> string" where
  "skip_base_prefix base s =
     (if (base = 16 \<and> (take 2 s = ''0x'' \<or> take 2 s = ''0X'')) \<or>
         (base = 2 \<and> (take 2 s = ''0b'' \<or> take 2 s = ''0B''))
      then (if take 1 (drop 2 s) = ''_'' then drop 3 s else drop 2 s)
      else s)"

text \<open>
  \<^verbatim>\<open>int(s, base)\<close> on a string. For a base that is no power of two CPython (3.11 and
  later) raises ValueError when the string has more digit characters than
  \<^verbatim>\<open>sys.get_int_max_str_digits()\<close>, 4300 unless it was changed; the sign and the
  underscores do not count.
\<close>

definition int_max_str_digits :: nat where
  "int_max_str_digits = 4300"

definition py_int_str :: "(char \<Rightarrow> bool) \<Rightarrow> nat \<Rightarrow> string \<Rightarrow> error + int" where
  "py_int_str sp base s =
     (let t = py_strip sp s;
          neg = (take 1 t = ''-'');
          u = (if take 1 t = ''-'' \<or> take 1 t = ''+'' then drop 1 t else t)
      in case int_digits base False 0 (skip_base_prefix base u) of
           None \<Rightarrow> Inl ValueError
         | Some n \<Rightarrow>
             if base \<notin> {2, 4, 8, 16, 32} \<and>
                int_max_str_digits <
                  length (filter (\<lambda>c. c \<noteq> CHR ''_'') (skip_base_prefix base u))
             then Inl ValueError
             else Inr (if neg then - int n else int n))"

definition toInt :: "pyval \<Rightarrow> error + int" where
  "toInt s =
     (case s of
        VStr t \<Rightarrow>
          (let t = py_strip str_isspace t in
           if take 2 t = ''0x'' then py_int_str str_isspace 16 (drop 2 t)
           else if take 2 t = ''0b'' then py_int_str str_isspace 2 (drop 2 t)
           else py_int_str str_isspace 10 t)
      | VInt x \<Rightarrow> Inr x
      | VBytes bs \<Rightarrow> py_int_str bytes_isspace 10 (map char_of_byte bs)
      | VNone \<Rightarrow> Inl TypeError)"

definition dec_digit :: "nat \<Rightarrow> char" where
  "dec_digit d = char_of (48 + d)"

fun dec_str :: "nat \<Rightarrow> string" where
  "dec_str n = (if n < 10 then [dec_digit n] else dec_str (n div 10) @ [dec_digit (n mod 10)])"

definition py_str_int :: "int \<Rightarrow> string" where
  "py_str_int x = (if x < 0 then CHR ''-'' # dec_str (nat (- x)) else dec_str (nat x))"

definition hex_digit :: "nat \<Rightarrow> char" where
  "hex_digit d = (if d < 10 then char_of (48 + d) else char_of (87 + d))"

definition fmt_02x :: "byte \<Rightarrow> string" where
  "fmt_02x b = [hex_digit (unat b div 16), hex_digit (unat b mod 16)]"

fun join :: "'a list \<Rightarrow> 'a list list \<Rightarrow> 'a list" where
  "join sep [] = []"
| "join sep [x] = x"
| "join sep (x # y # r) = x @ sep @ join sep (y # r)"

fun py_split :: "char \<Rightarrow> string \<Rightarrow> string list" where
  "py_split c [] = [[]]"
| "py_split c (x # xs) =
     (if x = c then [] # py_split c xs
      else (let r = py_split c xs in (x # hd r) # tl r))"

definition to_bytes :: "pyval \<Rightarrow> error + byte list" where
  "to_bytes s =
     (case s of
        VBytes b \<Rightarrow> Inr b
      | VStr t \<Rightarrow> Inr (map byte_of_char t)
      | VInt x \<Rightarrow> Inl AttributeError
      | VNone \<Rightarrow> Inl AttributeError)"

definition py_len :: "pyval \<Rightarrow> error + int" where
  "py_len x =
     (case x of
        VBytes b \<Rightarrow> Inr (int (length b))
      | VStr t \<Rightarrow> Inr (int (length t))
      | VInt n \<Rightarrow> Inl TypeError
      | VNone \<Rightarrow> Inl TypeError)"

definition hex_val :: "byte \<Rightarrow> nat option" where
  "hex_val b = digit_val 16 (char_of_byte b)"

fun unhexlify :: "byte list \<Rightarrow> error + byte list" where
  "unhexlify [] = Inr []"
| "unhexlify [a] = Inl BinasciiError"
| "unhexlify (a # b # r) =
     (case hex_val a of
        None \<Rightarrow> Inl BinasciiError
      | Some h \<Rightarrow>
          (case hex_val b of
             None \<Rightarrow> Inl BinasciiError
           | Some l \<Rightarrow> ebind (unhexlify r) (\<lambda>bs. Inr (word_of_nat (16 * h + l) # bs))))"


section \<open>The struct module\<close>

text \<open>
  A format string is a list of codes: \<^verbatim>\<open>"b"\<close> is \<open>[Cb]\<close>, \<^verbatim>\<open>"6s"\<close> is \<open>[Cs 6]\<close>,
  \<^verbatim>\<open>"x%ds" % n\<close> is \<open>[Cx, Cs n]\<close>; joining format strings is list append. A
  negative count (\<^verbatim>\<open>"%ds" % -1\<close>) is not a format and raises \<^verbatim>\<open>struct.error\<close>
  wherever the format is used. All formats are packed in standard little-endian mode
  (\<^verbatim>\<open>"<"\<close>); \<^verbatim>\<open>struct.calcsize\<close> of a single field in native mode gives the same
  size, since a lone field needs no padding.
\<close>

datatype code = Cb | CB | Ch | CH | Ci | CI | Cq | CQ | Cs int | Cx

definition code_size :: "code \<Rightarrow> error + nat" where
  "code_size c =
     (case c of
        Cb \<Rightarrow> Inr 1 | CB \<Rightarrow> Inr 1 | Ch \<Rightarrow> Inr 2 | CH \<Rightarrow> Inr 2
      | Ci \<Rightarrow> Inr 4 | CI \<Rightarrow> Inr 4 | Cq \<Rightarrow> Inr 8 | CQ \<Rightarrow> Inr 8
      | Cs n \<Rightarrow> if n < 0 then Inl StructError else Inr (nat n)
      | Cx \<Rightarrow> Inr 1)"

fun calcsize :: "code list \<Rightarrow> error + nat" where
  "calcsize [] = Inr 0"
| "calcsize (c # cs) = ebind (code_size c) (\<lambda>n. ebind (calcsize cs) (\<lambda>m. Inr (n + m)))"

definition pack_le :: "nat \<Rightarrow> int \<Rightarrow> byte list" where
  "pack_le n x = map (\<lambda>i. word_of_int (drop_bit (8 * i) x)) [0..<n]"

definition pack_int :: "bool \<Rightarrow> nat \<Rightarrow> pyval \<Rightarrow> error + byte list" where
  "pack_int is_signed n v =
     (case v of
        VInt x \<Rightarrow>
          (if is_signed then
             (if - (2 ^ (8 * n - 1)) \<le> x \<and> x < 2 ^ (8 * n - 1) then Inr (pack_le n x)
              else Inl StructError)
           else
             (if 0 \<le> x \<and> x < 2 ^ (8 * n) then Inr (pack_le n x) else Inl StructError))
      | VNone \<Rightarrow> Inl StructError
      | VBytes b \<Rightarrow> Inl StructError
      | VStr t \<Rightarrow> Inl StructError)"

definition pack_s :: "int \<Rightarrow> pyval \<Rightarrow> error + byte list" where
  "pack_s n v =
     (if n < 0 then Inl StructError
      else case v of
        VBytes b \<Rightarrow> Inr (take (nat n) b @ replicate (nat n - length b) 0)
      | VNone \<Rightarrow> Inl StructError
      | VInt x \<Rightarrow> Inl StructError
      | VStr t \<Rightarrow> Inl StructError)"

definition pack_code :: "code \<Rightarrow> pyval \<Rightarrow> error + byte list" where
  "pack_code c v =
     (case c of
        Cb \<Rightarrow> pack_int True 1 v | CB \<Rightarrow> pack_int False 1 v
      | Ch \<Rightarrow> pack_int True 2 v | CH \<Rightarrow> pack_int False 2 v
      | Ci \<Rightarrow> pack_int True 4 v | CI \<Rightarrow> pack_int False 4 v
      | Cq \<Rightarrow> pack_int True 8 v | CQ \<Rightarrow> pack_int False 8 v
      | Cs n \<Rightarrow> pack_s n v
      | Cx \<Rightarrow> Inr [0])"

fun struct_pack :: "code list \<Rightarrow> pyval list \<Rightarrow> error + byte list" where
  "struct_pack [] [] = Inr []"
| "struct_pack [] (v # vs) = Inl StructError"
| "struct_pack (Cx # cs) vs = ebind (struct_pack cs vs) (\<lambda>r. Inr (0 # r))"
| "struct_pack (c # cs) [] = Inl StructError"
| "struct_pack (c # cs) (v # vs) =
     ebind (pack_code c v) (\<lambda>b. ebind (struct_pack cs vs) (\<lambda>r. Inr (b @ r)))"

definition unpack_uint :: "byte list \<Rightarrow> int" where
  "unpack_uint bs = foldr (\<lambda>b acc. uint b + 256 * acc) bs 0"

definition unpack_sint :: "byte list \<Rightarrow> int" where
  "unpack_sint bs =
     (let u = unpack_uint bs in
      if 2 ^ (8 * length bs - 1) \<le> u then u - 2 ^ (8 * length bs) else u)"

fun unpack_fields :: "code list \<Rightarrow> byte list \<Rightarrow> pyval list" where
  "unpack_fields [] bs = []"
| "unpack_fields (Cb # cs) bs = VInt (unpack_sint (take 1 bs)) # unpack_fields cs (drop 1 bs)"
| "unpack_fields (CB # cs) bs = VInt (unpack_uint (take 1 bs)) # unpack_fields cs (drop 1 bs)"
| "unpack_fields (Ch # cs) bs = VInt (unpack_sint (take 2 bs)) # unpack_fields cs (drop 2 bs)"
| "unpack_fields (CH # cs) bs = VInt (unpack_uint (take 2 bs)) # unpack_fields cs (drop 2 bs)"
| "unpack_fields (Ci # cs) bs = VInt (unpack_sint (take 4 bs)) # unpack_fields cs (drop 4 bs)"
| "unpack_fields (CI # cs) bs = VInt (unpack_uint (take 4 bs)) # unpack_fields cs (drop 4 bs)"
| "unpack_fields (Cq # cs) bs = VInt (unpack_sint (take 8 bs)) # unpack_fields cs (drop 8 bs)"
| "unpack_fields (CQ # cs) bs = VInt (unpack_uint (take 8 bs)) # unpack_fields cs (drop 8 bs)"
| "unpack_fields (Cs n # cs) bs = VBytes (take (nat n) bs) # unpack_fields cs (drop (nat n) bs)"
| "unpack_fields (Cx # cs) bs = unpack_fields cs (drop 1 bs)"

definition struct_unpack :: "code list \<Rightarrow> byte list \<Rightarrow> error + pyval list" where
  "struct_unpack cs bs =
     ebind (calcsize cs) (\<lambda>n.
       if length bs \<noteq> n then Inl StructError else Inr (unpack_fields cs bs))"


section \<open>serdeser.py: Serializer\<close>

fun emap :: "('a \<Rightarrow> error + 'b) \<Rightarrow> 'a list \<Rightarrow> error + 'b list" where
  "emap f [] = Inr []"
| "emap f (x # xs) = ebind (f x) (\<lambda>y. ebind (emap f xs) (\<lambda>ys. Inr (y # ys)))"

record Serializer =
  ser_apis :: "int \<rightharpoonup> ParsedApi"
  ser_device_ids :: "string \<rightharpoonup> int"

definition Serializer_init :: "ParsedApi list \<Rightarrow> Serializer" where
  "Serializer_init apis =
     \<lparr>ser_apis = fold (\<lambda>api d. d(device_id api \<mapsto> api)) apis Map.empty,
      ser_device_ids = fold (\<lambda>api d. d(device_name api \<mapsto> device_id api)) apis Map.empty\<rparr>"

text \<open>
  The name \<^verbatim>\<open>basestring\<close> is looked up when \<^verbatim>\<open>_convertEnumDefine\<close> reaches its
  second test. serdeser.py neither defines nor imports it, and Python 3 (which the module
  needs: \<^verbatim>\<open>super().__init__\<close>, \<^verbatim>\<open>raise ... from None\<close>) has no such builtin, so
  the lookup raises NameError.
\<close>

definition builtins_basestring :: "(pyval \<Rightarrow> bool) option" where
  "builtins_basestring = None"

definition truthy :: "string option \<Rightarrow> bool" where
  "truthy s = (case s of None \<Rightarrow> False | Some t \<Rightarrow> t \<noteq> [])"

text \<open>
  \<^verbatim>\<open>Serializer._convertEnumDefine\<close>. Past the \<^verbatim>\<open>basestring\<close> test the source looks the
  symbol up in the class's dictionary of groups (\<^verbatim>\<open>enums[val]\<close>, \<^verbatim>\<open>defines[v]\<close>),
  whose values are \<^verbatim>\<open>ApiEnum\<close>/\<^verbatim>\<open>ApiDefine\<close> objects without a \<^verbatim>\<open>value\<close> attribute.
\<close>

definition Serializer_convertEnumDefine ::
  "ApiParameter \<Rightarrow> pyval \<Rightarrow> (string \<rightharpoonup> ApiEnum) \<Rightarrow> (string \<rightharpoonup> ApiDefine) \<Rightarrow> error + int" where
  "Serializer_convertEnumDefine apiparam val enums defs =
     (if \<not> truthy (validator_id apiparam) then toInt val
      else case builtins_basestring of
        None \<Rightarrow> Inl NameError
      | Some isinstance_basestring \<Rightarrow>
          (if \<not> isinstance_basestring val then toInt val
           else case val of
             VStr t \<Rightarrow>
               (if length t = 0 \<or> hd t \<in> set ''0123456789'' then toInt val
                else if validator_type apiparam = Some ''enum'' then
                  ebind (dict_get enums t) (\<lambda>group. Inl AttributeError)
                else if validator_type apiparam = Some ''define'' then
                  ebind (dict_get defs (hd (py_split CHR ''|'' t))) (\<lambda>group. Inl AttributeError)
                else toInt val)
           | VBytes b \<Rightarrow> Inl TypeError
           | VInt x \<Rightarrow> Inl TypeError
           | VNone \<Rightarrow> Inl TypeError))"

type_synonym packer = "ApiParameter \<Rightarrow> pyval \<Rightarrow> error + (code list \<times> pyval)"

definition pk_int ::
  "code \<Rightarrow> (string \<rightharpoonup> ApiEnum) \<Rightarrow> (string \<rightharpoonup> ApiDefine) \<Rightarrow> packer" where
  "pk_int c enums defs apiparam x =
     ebind (Serializer_convertEnumDefine apiparam x enums defs) (\<lambda>v. Inr ([c], VInt v))"

definition pk_array :: "code \<Rightarrow> int \<Rightarrow> packer" where
  "pk_array lencode lensize apiparam x =
     ebind (to_bytes x) (\<lambda>b.
     ebind (py_len x) (\<lambda>n.
     ebind (pack_code lencode (VInt n)) (\<lambda>l.
       Inr ([Cs (int (length b) + lensize)], VBytes (l @ b)))))"

definition pk_addr :: "bool \<Rightarrow> packer" where
  "pk_addr reversed apiparam x =
     ebind (to_bytes x) (\<lambda>b.
     ebind (unhexlify (filter (\<lambda>c. c \<noteq> 0x3A) b)) (\<lambda>h.
       Inr ([Cs 6], VBytes (if reversed then rev h else h))))"

definition pk_ipv4 :: packer where
  "pk_ipv4 apiparam x =
     (case x of
        VStr t \<Rightarrow>
          ebind (emap (\<lambda>part. ebind (py_int_str str_isspace 10 part) pack_B)
                      (py_split CHR ''.'' t))
            (\<lambda>bs. Inr ([Cs 4], VBytes bs))
      | VBytes b \<Rightarrow> Inl TypeError
      | VInt n \<Rightarrow> Inl AttributeError
      | VNone \<Rightarrow> Inl AttributeError)"

definition pk_raw :: "int \<Rightarrow> packer" where
  "pk_raw n apiparam x = ebind (to_bytes x) (\<lambda>b. Inr ([Cs n], VBytes b))"

definition pk_byte_array :: packer where
  "pk_byte_array apiparam x =
     ebind (to_bytes x) (\<lambda>b. Inr ([Cs (type_length (param_datatype apiparam))], VBytes b))"

definition packers ::
  "(string \<rightharpoonup> ApiEnum) \<Rightarrow> (string \<rightharpoonup> ApiDefine) \<Rightarrow> (string \<rightharpoonup> packer)" where
  "packers enums defs = map_of
     [(''int8'', pk_int Cb enums defs),
      (''uint8'', pk_int CB enums defs),
      (''int16'', pk_int Ch enums defs),
      (''uint16'', pk_int CH enums defs),
      (''int32'', pk_int Ci enums defs),
      (''uint32'', pk_int CI enums defs),
      (''int64'', pk_int Cq enums defs),
      (''uint64'', pk_int CQ enums defs),
      (''uint8array'', pk_array CB 1),
      (''uint16array'', pk_array CH 2),
      (''bd_addr'', pk_addr True),
      (''hw_addr'', pk_addr False),
      (''ipv4'', pk_ipv4),
      (''uuid_128'', pk_raw 16),
      (''aes_key_128'', pk_raw 16),
      (''sl_bt_uuid_64_t'', pk_raw 8),
      (''sl_bt_uuid_16_t'', pk_raw 2),
      (''byte_array'', pk_byte_array)]"

definition parseParameters ::
  "pyval list \<Rightarrow> ApiParameter list \<Rightarrow> (string \<rightharpoonup> ApiEnum) \<Rightarrow> (string \<rightharpoonup> ApiDefine)
     \<Rightarrow> error + (code list list \<times> pyval list)" where
  "parseParameters args apiparams enums defs =
     (if length args \<noteq> length apiparams then Inl TypeError
      else
        ebind (emap (\<lambda>(apiparam, val).
                 ebind (dict_get (packers enums defs) (param_format apiparam))
                   (\<lambda>pk. pk apiparam val))
               (zip apiparams args))
          (\<lambda>a. Inr (map fst a, map snd a)))"

definition command_payload ::
  "pyval list \<Rightarrow> ApiParameter list \<Rightarrow> (string \<rightharpoonup> ApiEnum) \<Rightarrow> (string \<rightharpoonup> ApiDefine)
     \<Rightarrow> error + (nat \<times> byte list)" where
  "command_payload args apiparams enums defs =
     ebind (parseParameters args apiparams enums defs) (\<lambda>(pack_format, params).
     ebind (calcsize (concat pack_format)) (\<lambda>param_data_len.
     ebind (struct_pack (concat pack_format) params) (\<lambda>payload.
       Inr (param_data_len, payload))))"

text \<open>\<^verbatim>\<open>if isinstance(device_id, str): device_id = self.device_ids[device_id]\<close>\<close>

definition resolve_device :: "Serializer \<Rightarrow> pyval \<Rightarrow> error + pyval" where
  "resolve_device self dev =
     (case dev of
        VStr n \<Rightarrow> ebind (dict_get (ser_device_ids self) n) (\<lambda>i. Inr (VInt i))
      | VInt i \<Rightarrow> Inr (VInt i)
      | VBytes b \<Rightarrow> Inr (VBytes b)
      | VNone \<Rightarrow> Inr VNone)"

definition lookup_api :: "Serializer \<Rightarrow> pyval \<Rightarrow> error + (int \<times> ParsedApi)" where
  "lookup_api self dev =
     (case dev of
        VInt i \<Rightarrow> ebind (dict_get (ser_apis self) i) (\<lambda>api. Inr (i, api))
      | VStr n \<Rightarrow> Inl KeyError
      | VBytes b \<Rightarrow> Inl KeyError
      | VNone \<Rightarrow> Inl KeyError)"

definition Serializer_command ::
  "Serializer \<Rightarrow> pyval \<Rightarrow> pyval \<Rightarrow> pyval \<Rightarrow> pyval list \<Rightarrow> error + byte list" where
  "Serializer_command self dev class_name command_name args =
     ebind (resolve_device self dev) (\<lambda>dev.
     ebind (lookup_api self dev) (\<lambda>(dev_id, api).
     ebind (dict_get (api_classes api) class_name) (\<lambda>apiclass.
     ebind (dict_get (cls_commands apiclass) command_name) (\<lambda>apicommand.
     ebind (parseParameters args (cmd_params apicommand)
              (cls_enums apiclass) (cls_defines apiclass)) (\<lambda>(pack_format, params).
     ebind (calcsize (concat pack_format)) (\<lambda>param_data_len.
     ebind (make_header MSG_COMMAND dev_id (cls_index apiclass) (cmd_index apicommand)
              (int param_data_len)) (\<lambda>header.
     ebind (struct_pack (concat pack_format) params) (\<lambda>payload.
       Inr (header @ payload)))))))))"

section \<open>serdeser.py: Deserializer\<close>

record Deserializer =
  deser_apis :: "int \<rightharpoonup> ParsedApi"

definition Deserializer_init :: "ParsedApi list \<Rightarrow> Deserializer" where
  "Deserializer_init apis =
     \<lparr>deser_apis = fold (\<lambda>api d. d(device_id api \<mapsto> api)) apis Map.empty\<rparr>"

text \<open>
  \<^verbatim>\<open>Deserializer._convertEnumDefine\<close>. In the define branch the source reads
  \<^verbatim>\<open>apiparam.defines\<close>; \<^verbatim>\<open>ApiParameter.__init__\<close> sets parent, index, name, format,
  datatype, validator_type, validator_id and description, and the class has no other
  attribute, so the read raises AttributeError before the loop starts.
\<close>

definition Deserializer_convertEnumDefine ::
  "ApiParameter \<Rightarrow> pyval \<Rightarrow> (string \<rightharpoonup> ApiEnum) \<Rightarrow> (string \<rightharpoonup> ApiDefine) \<Rightarrow> error + pyval" where
  "Deserializer_convertEnumDefine apiparam val enums defs =
     (if \<not> truthy (validator_id apiparam) then Inr val
      else if validator_type apiparam = Some ''enum'' then
        ebind (dict_get enums (the (validator_id apiparam))) (\<lambda>group.
        ebind (dict_get (enum_items group) val) (\<lambda>member.
          Inr (VStr (ev_name member))))
      else if validator_type apiparam = Some ''define'' then Inl AttributeError
      else Inr val)"

type_synonym unpacker = "ApiParameter \<Rightarrow> byte list \<Rightarrow> error + code list"

definition up_array :: "nat \<Rightarrow> unpacker" where
  "up_array lensize apiparam x =
     (if length (take lensize x) \<noteq> lensize then Inl StructError
      else Inr (replicate lensize Cx @ [Cs (unpack_uint (take lensize x))]))"

definition unpackers :: "string \<rightharpoonup> unpacker" where
  "unpackers = map_of
     [(''int8'', \<lambda>apiparam x. Inr [Cb]),
      (''uint8'', \<lambda>apiparam x. Inr [CB]),
      (''int16'', \<lambda>apiparam x. Inr [Ch]),
      (''uint16'', \<lambda>apiparam x. Inr [CH]),
      (''int32'', \<lambda>apiparam x. Inr [Ci]),
      (''uint32'', \<lambda>apiparam x. Inr [CI]),
      (''int64'', \<lambda>apiparam x. Inr [Cq]),
      (''uint64'', \<lambda>apiparam x. Inr [CQ]),
      (''uint8array'', up_array 1),
      (''uint16array'', up_array 2),
      (''bd_addr'', \<lambda>apiparam x. Inr [Cs 6]),
      (''hw_addr'', \<lambda>apiparam x. Inr [Cs 6]),
      (''ipv4'', \<lambda>apiparam x. Inr [Cs 4]),
      (''uuid_128'', \<lambda>apiparam x. Inr [Cs 16]),
      (''aes_key_128'', \<lambda>apiparam x. Inr [Cs 16]),
      (''sl_bt_uuid_64_t'', \<lambda>apiparam x. Inr [Cs 8]),
      (''sl_bt_uuid_16_t'', \<lambda>apiparam x. Inr [Cs 2]),
      (''byte_array'', \<lambda>apiparam x. Inr [Cs (type_length (param_datatype apiparam))])]"

definition cv_addr :: "bool \<Rightarrow> pyval \<Rightarrow> error + pyval" where
  "cv_addr reversed x =
     (case x of
        VBytes b \<Rightarrow> Inr (VStr (join '':'' (map fmt_02x (if reversed then rev b else b))))
      | VStr t \<Rightarrow> Inl ValueError
      | VInt n \<Rightarrow> Inl TypeError
      | VNone \<Rightarrow> Inl TypeError)"

definition cv_ipv4 :: "pyval \<Rightarrow> error + pyval" where
  "cv_ipv4 x =
     (case x of
        VBytes b \<Rightarrow> Inr (VStr (join ''.'' (map (\<lambda>c. py_str_int (uint c)) b)))
      | VStr t \<Rightarrow> Inr (VStr (join ''.'' (map (\<lambda>c. [c]) t)))
      | VInt n \<Rightarrow> Inl TypeError
      | VNone \<Rightarrow> Inl TypeError)"

definition converters :: "string \<rightharpoonup> (pyval \<Rightarrow> error + pyval)" where
  "converters = map_of
     [(''int8'', Inr), (''uint8'', Inr), (''int16'', Inr), (''uint16'', Inr),
      (''int32'', Inr), (''uint32'', Inr), (''int64'', Inr), (''uint64'', Inr),
      (''uint8array'', Inr), (''uint16array'', Inr),
      (''bd_addr'', cv_addr True), (''hw_addr'', cv_addr False), (''ipv4'', cv_ipv4),
      (''uuid_128'', Inr), (''aes_key_128'', Inr),
      (''sl_bt_uuid_64_t'', Inr), (''sl_bt_uuid_16_t'', Inr), (''byte_array'', Inr)]"

datatype warning = MissingParams string "string list" | ExtraPayload string nat

datatype apinode = Cmd ApiCommand | Evt ApiEvent

text \<open>
  The \<^verbatim>\<open>for (i, apiparam) in enumerate(apiparams)\<close> loop of \<^verbatim>\<open>parse\<close>: the result is
  the format collected, the position reached and \<^verbatim>\<open>apiparams[i:]\<close> at the
  \<^verbatim>\<open>break\<close> (empty when the loop ran to its end).
\<close>

fun layout ::
  "ApiParameter list \<Rightarrow> byte list \<Rightarrow> nat \<Rightarrow> code list
     \<Rightarrow> error + (code list \<times> nat \<times> ApiParameter list)" where
  "layout [] payload pos pack_format = Inr (pack_format, pos, [])"
| "layout (apiparam # rest) payload pos pack_format =
     (if pos \<ge> length payload then Inr (pack_format, pos, apiparam # rest)
      else
        ebind (dict_get unpackers (param_format apiparam)) (\<lambda>u.
        ebind (u apiparam (take 2 (drop pos payload))) (\<lambda>fmt.
        ebind (calcsize fmt) (\<lambda>n.
          layout rest payload (pos + n) (pack_format @ fmt)))))"

definition nth_err :: "'a list \<Rightarrow> nat \<Rightarrow> error + 'a" where
  "nth_err xs i = (if i < length xs then Inr (xs ! i) else Inl IndexError)"

text \<open>
  Lines 282 to 338 of \<^verbatim>\<open>parse\<close>, in the source's order: the layout loop, the
  truncation of extra payload, \<^verbatim>\<open>struct.unpack\<close>, the padding with None, the
  converters and the validators. The warnings logged are returned beside the result,
  since a warning already logged stays logged when a later step raises.
\<close>

definition convert_params :: "ApiParameter list \<Rightarrow> pyval list \<Rightarrow> error + pyval list" where
  "convert_params apiparams params =
     emap (\<lambda>(param, apiparam).
             ebind (dict_get converters (param_format apiparam)) (\<lambda>c. c param))
          (zip params apiparams)"

definition convert_enumdefines ::
  "ApiParameter list \<Rightarrow> pyval list \<Rightarrow> (string \<rightharpoonup> ApiEnum) \<Rightarrow> (string \<rightharpoonup> ApiDefine)
     \<Rightarrow> error + pyval list" where
  "convert_enumdefines apiparams params enums defs =
     emap (\<lambda>i. ebind (nth_err apiparams i) (\<lambda>apiparam.
                ebind (nth_err params i) (\<lambda>param.
                  Deserializer_convertEnumDefine apiparam param enums defs)))
          [0..<length apiparams]"

definition finish_params ::
  "ApiParameter list \<Rightarrow> (string \<rightharpoonup> ApiEnum) \<Rightarrow> (string \<rightharpoonup> ApiDefine) \<Rightarrow> bool
     \<Rightarrow> pyval list \<Rightarrow> error + pyval list" where
  "finish_params apiparams enums defs enumdefines vals =
     ebind (convert_params apiparams
              (vals @ replicate (length apiparams - length vals) VNone)) (\<lambda>params.
       if enumdefines then convert_enumdefines apiparams params enums defs
       else Inr params)"

definition decode ::
  "string \<Rightarrow> ApiParameter list \<Rightarrow> byte list \<Rightarrow> (string \<rightharpoonup> ApiEnum)
     \<Rightarrow> (string \<rightharpoonup> ApiDefine) \<Rightarrow> bool \<Rightarrow> warning list \<times> (error + pyval list)" where
  "decode apidoc_name apiparams payload enums defs enumdefines =
     (case layout apiparams payload 0 [] of
        Inl e \<Rightarrow> ([], Inl e)
      | Inr (pack_format, pos, missing) \<Rightarrow>
          ((if missing \<noteq> [] then [MissingParams apidoc_name (map param_name missing)] else []) @
           (if length payload > pos then [ExtraPayload apidoc_name (length payload - pos)] else []),
           ebind (struct_unpack pack_format
                    (if length payload > pos then take pos payload else payload))
             (finish_params apiparams enums defs enumdefines)))"

definition lookup_node ::
  "ParsedApi \<Rightarrow> int \<Rightarrow> int \<Rightarrow> int \<Rightarrow> bool
     \<Rightarrow> error + (apinode \<times> ApiParameter list \<times> string \<times> ApiClass)" where
  "lookup_node api cmdevt classIndex cmdEvtIndex fromHost =
     (if cmdevt = MSG_COMMAND then
        ebind (dict_get (api_classes api) (VInt classIndex)) (\<lambda>apiclass.
        ebind (dict_get (cls_commands apiclass) (VInt cmdEvtIndex)) (\<lambda>c.
          Inr (Cmd c, (if fromHost then cmd_params c else cmd_returns c),
               api_name api @ (if fromHost then ''_cmd'' else ''_rsp'') @
                 ''_'' @ cmd_class_name c @ ''_'' @ cmd_name c,
               apiclass)))
      else
        (case ebind (dict_get (api_classes api) (VInt classIndex)) (\<lambda>apiclass.
              ebind (dict_get (cls_events apiclass) (VInt cmdEvtIndex)) (\<lambda>ev.
                Inr (Evt ev, evt_params ev,
                     api_name api @ ''_evt'' @ ''_'' @ evt_class_name ev @ ''_'' @ evt_name ev,
                     apiclass))) of
           Inl e \<Rightarrow>
             (if e = KeyError then Inl (DeserializerEventMissingError classIndex cmdEvtIndex)
              else Inl e)
         | Inr r \<Rightarrow> Inr r))"

definition Deserializer_parse ::
  "Deserializer \<Rightarrow> byte list \<Rightarrow> byte list \<Rightarrow> bool \<Rightarrow> bool
     \<Rightarrow> warning list \<times> (error + (apinode \<times> hfields \<times> pyval list))" where
  "Deserializer_parse self header payload fromHost enumdefines =
     (case parseHeader header of
        Inl e \<Rightarrow> ([], Inl e)
      | Inr (cmdevt, dev_id, parameter_len, classIndex, cmdEvtIndex) \<Rightarrow>
          (case deser_apis self dev_id of
             None \<Rightarrow> ([], Inl (DeserializerApiMissingError dev_id))
           | Some api \<Rightarrow>
               (case lookup_node api cmdevt classIndex cmdEvtIndex fromHost of
                  Inl e \<Rightarrow> ([], Inl e)
                | Inr (node, apiparams, apidoc_name, apiclass) \<Rightarrow>
                    (case decode apidoc_name apiparams payload
                            (cls_enums apiclass) (cls_defines apiclass) enumdefines of
                       (ws, r) \<Rightarrow>
                         (ws, ebind r (\<lambda>params.
                            Inr (node, (cmdevt, dev_id, parameter_len, classIndex, cmdEvtIndex),
                                 params)))))))"


section \<open>An example API\<close>

definition ApiParameter_init ::
  "int \<Rightarrow> string \<Rightarrow> string \<Rightarrow> ApiType \<Rightarrow> string option \<Rightarrow> string option \<Rightarrow> ApiParameter" where
  "ApiParameter_init index name fmt dt vtype vid =
     \<lparr>param_index = index, param_name = name, param_format = fmt, param_datatype = dt,
      validator_type = vtype, validator_id = vid, param_description = []\<rparr>"

definition plain :: "string \<Rightarrow> string \<Rightarrow> ApiParameter" where
  "plain name fmt = ApiParameter_init 0 name fmt ApiType_None None None"

definition ApiCommand_init ::
  "int \<Rightarrow> string \<Rightarrow> ApiParameter list \<Rightarrow> ApiParameter list \<Rightarrow> ApiCommand" where
  "ApiCommand_init index name params returns =
     \<lparr>cmd_device_name = ''test'', cmd_class_name = ''simple'', cmd_index = index,
      cmd_name = name, cmd_description = [], cmd_params = params, cmd_returns = returns,
      no_return = False, cmd_internal = False\<rparr>"

definition errorcode_type :: ApiType where
  "errorcode_type = \<lparr>type_name = ''errorcode'', type_base = ''uint16'', type_length = 0\<rparr>"

definition color_param :: ApiParameter where
  "color_param = ApiParameter_init 0 ''color'' ''uint8'' ApiType_None (Some ''enum'') (Some ''color'')"

definition flags_param :: ApiParameter where
  "flags_param = ApiParameter_init 0 ''flags'' ''uint8'' ApiType_None (Some ''define'') (Some ''flags'')"

definition test_commands :: "ApiCommand list" where
  "test_commands =
     [ApiCommand_init 0 ''no_params'' [] [],
      ApiCommand_init 2 ''can_fail'' []
        [ApiParameter_init 0 ''result'' ''uint16'' errorcode_type None None],
      ApiCommand_init 3 ''command_a'' [] [],
      ApiCommand_init 4 ''command_b'' [] [],
      ApiCommand_init 5 ''set_color'' [color_param] [color_param],
      ApiCommand_init 6 ''set_flags'' [flags_param] [flags_param]]"

definition test_event :: ApiEvent where
  "test_event =
     \<lparr>evt_device_name = ''test'', evt_class_name = ''simple'', evt_index = 0,
      evt_name = ''multi_type_event'', evt_description = [], evt_internal = False,
      evt_params = [plain ''value1'' ''uint8'', plain ''value2'' ''uint16'']\<rparr>"

definition test_class :: ApiClass where
  "test_class =
     \<lparr>cls_index = 1, cls_name = ''simple'', cls_description = [],
      cls_enums = by_name enum_name
        [ApiEnum_init ''color'' []
           [\<lparr>ev_name = ''red'', ev_value = 0, ev_description = []\<rparr>,
            \<lparr>ev_name = ''green'', ev_value = 1, ev_description = []\<rparr>]],
      enum_group_names = [''color''],
      cls_defines = by_name enum_name
        [ApiEnum_init ''flags'' []
           [\<lparr>ev_name = ''a'', ev_value = 1, ev_description = []\<rparr>,
            \<lparr>ev_name = ''b'', ev_value = 2, ev_description = []\<rparr>]],
      define_group_names = [''flags''],
      cls_commands = by_name_and_index cmd_name cmd_index test_commands,
      command_names = map cmd_name test_commands,
      cls_events = by_name_and_index evt_name evt_index [test_event],
      event_names = [''multi_type_event'']\<rparr>"

definition test_api :: ParsedApi where
  "test_api =
     \<lparr>device_id = 2, device_name = ''test'', api_name = ''test'', api_version = None,
      api_names = [''simple''], api_types = [''errorcode'' \<mapsto> errorcode_type],
      api_classes = by_name_and_index cls_name cls_index [test_class]\<rparr>"


section \<open>Lookups in the codec\<close>

text \<open>The subclasses of \<^verbatim>\<open>DeserializerError\<close>.\<close>

definition is_DeserializerError :: "error \<Rightarrow> bool" where
  "is_DeserializerError e =
     (case e of DeserializerApiMissingError d \<Rightarrow> True
      | DeserializerEventMissingError c i \<Rightarrow> True
      | _ \<Rightarrow> False)"

lemma ebind_Inr [simp]: "ebind (Inr v) f = f v"
  by (simp add: ebind_def)

lemma ebind_Inl [simp]: "ebind (Inl e) f = Inl e"
  by (simp add: ebind_def)

lemma ebind_unit: "ebind r Inr = r"
  by (cases r) simp_all

lemma dict_get_Some [simp]: "d k = Some v \<Longrightarrow> dict_get d k = Inr v"
  by (simp add: dict_get_def)

lemma dict_get_None [simp]: "d k = None \<Longrightarrow> dict_get d k = Inl KeyError"
  by (simp add: dict_get_def)

text \<open>
  C10. For a command whose parameter list is empty and an empty argument tuple,
  \<^verbatim>\<open>Serializer.command\<close> returns exactly what \<^verbatim>\<open>make_header\<close> gives for message type
  0, the resolved device, class and command ids and payload length 0, with no payload byte
  after it; with ids that fit the header fields that is four bytes whose length field
  decodes to 0.
\<close>

theorem C10_empty_command:
  assumes "resolve_device self dev = Inr (VInt dev_id)"
    and "ser_apis self dev_id = Some api"
    and "api_classes api class_name = Some apiclass"
    and "cls_commands apiclass command_name = Some apicommand"
    and "cmd_params apicommand = []"
  shows "Serializer_command self dev class_name command_name [] =
           make_header MSG_COMMAND dev_id (cls_index apiclass) (cmd_index apicommand) 0 \<and>
         (0 \<le> dev_id \<and> dev_id < 16 \<and> 0 \<le> cls_index apiclass \<and> cls_index apiclass < 256 \<and>
          0 \<le> cmd_index apicommand \<and> cmd_index apicommand < 256 \<longrightarrow>
          (\<exists>h. Serializer_command self dev class_name command_name [] = Inr h \<and>
               length h = 4 \<and>
               parseHeader h =
                 Inr (0, dev_id, 0, cls_index apiclass, cmd_index apicommand)))"
proof -
  have pp: "parseParameters [] [] (cls_enums apiclass) (cls_defines apiclass) = Inr ([], [])"
    by (simp add: parseParameters_def)
  have eq: "Serializer_command self dev class_name command_name [] =
      make_header MSG_COMMAND dev_id (cls_index apiclass) (cmd_index apicommand) 0"
    using assms pp
    by (simp add: Serializer_command_def lookup_api_def ebind_unit)
  show ?thesis
    using eq C7_header_roundtrip [of 0 dev_id "cls_index apiclass" "cmd_index apicommand" 0]
    by (auto simp: MSG_COMMAND_def)
qed

text \<open>
  C9. For a frame with msg_type 0 whose class index or command index is absent from the
  resolved device API, \<^verbatim>\<open>Deserializer.parse\<close> raises a plain KeyError, which is not a
  DeserializerError; an unknown device raises DeserializerApiMissingError and an unknown
  event (or its class) raises DeserializerEventMissingError.
\<close>

theorem C9_missing_command:
  assumes "parseHeader header = Inr (mt, dev_id, plen, classIndex, idx)"
  shows "(deser_apis self dev_id = None \<longrightarrow>
            snd (Deserializer_parse self header payload fromHost enumdefines)
              = Inl (DeserializerApiMissingError dev_id)) \<and>
         (\<forall>api. deser_apis self dev_id = Some api \<longrightarrow>
            (mt = MSG_COMMAND \<and>
             (api_classes api (VInt classIndex) = None \<or>
              (\<exists>c. api_classes api (VInt classIndex) = Some c \<and>
                   cls_commands c (VInt idx) = None)) \<longrightarrow>
               snd (Deserializer_parse self header payload fromHost enumdefines) = Inl KeyError
               \<and> \<not> is_DeserializerError KeyError) \<and>
            (mt \<noteq> MSG_COMMAND \<and>
             (api_classes api (VInt classIndex) = None \<or>
              (\<exists>c. api_classes api (VInt classIndex) = Some c \<and>
                   cls_events c (VInt idx) = None)) \<longrightarrow>
               snd (Deserializer_parse self header payload fromHost enumdefines)
                 = Inl (DeserializerEventMissingError classIndex idx)))"
  using assms
  by (auto simp: Deserializer_parse_def lookup_node_def is_DeserializerError_def)


lemma test_class_fields:
  "cls_name test_class = ''simple''" "cls_index test_class = 1"
  by (simp_all add: test_class_def)

lemma test_api_lookup:
  "ser_apis (Serializer_init [test_api]) 2 = Some test_api"
  "ser_device_ids (Serializer_init [test_api]) ''test'' = Some 2"
  "deser_apis (Deserializer_init [test_api]) 2 = Some test_api"
  "api_classes test_api (VStr ''simple'') = Some test_class"
  "api_classes test_api (VInt 1) = Some test_class"
  by (simp_all add: Serializer_init_def Deserializer_init_def test_api_def
      by_name_and_index_def test_class_fields)

lemma test_no_params:
  "cls_commands test_class (VStr ''no_params'') = Some (ApiCommand_init 0 ''no_params'' [] [])"
  by (simp add: test_class_def by_name_and_index_def test_commands_def ApiCommand_init_def)

theorem C10_empty_command_witness:
  "Serializer_command (Serializer_init [test_api]) (VStr ''test'') (VStr ''simple'')
     (VStr ''no_params'') [] = Inr [0x10, 0, 1, 0]"
proof -
  have a: "resolve_device (Serializer_init [test_api]) (VStr ''test'') = Inr (VInt 2)"
    by (simp add: resolve_device_def test_api_lookup)
  have e: "cmd_params (ApiCommand_init 0 ''no_params'' [] []) = []"
    by (simp add: ApiCommand_init_def)
  have f: "make_header MSG_COMMAND 2 (cls_index test_class)
             (cmd_index (ApiCommand_init 0 ''no_params'' [] [])) 0 = Inr [0x10, 0, 1, 0]"
    by (simp add: test_class_fields ApiCommand_init_def make_header_def MSG_COMMAND_def
        pack_B_def)
  show ?thesis
    using C10_empty_command [OF a test_api_lookup(1) test_api_lookup(4) test_no_params e] f
    by simp
qed

lemma test_header: "parseHeader [0x10, 0, 1, 9] = Inr (0, 2, 0, 1, 9)"
  by (simp add: parseHeader_def getitem_def)

lemma test_no_command_9: "cls_commands test_class (VInt 9) = None"
  by (simp add: test_class_def by_name_and_index_def test_commands_def ApiCommand_init_def)

theorem C9_missing_command_witness:
  "parseHeader [0x10, 0, 1, 9] = Inr (0, 2, 0, 1, 9) \<and>
   deser_apis (Deserializer_init [test_api]) 2 = Some test_api \<and>
   api_classes test_api (VInt 1) = Some test_class \<and>
   cls_commands test_class (VInt 9) = None \<and>
   snd (Deserializer_parse (Deserializer_init [test_api]) [0x10, 0, 1, 9] [] False True)
     = Inl KeyError"
  using C9_missing_command [OF test_header, of "Deserializer_init [test_api]" "[]" False True]
    test_header test_api_lookup(3,5) test_no_command_9
  by (simp add: MSG_COMMAND_def)


section \<open>bglib.py: messages, send_command and the command facade\<close>

text \<open>
  A \<^verbatim>\<open>BGMsg\<close> is the tuple of its values together with its instance dictionary.
  \<^verbatim>\<open>BGMsg.__new__\<close> stores \<^verbatim>\<open>_apinode\<close>, the three identity strings, \<^verbatim>\<open>__name__\<close>,
  \<^verbatim>\<open>__doc__\<close>, \<^verbatim>\<open>_timestamp\<close> and \<^verbatim>\<open>_fields\<close> there and then, value by value,
  appends the parameter's name to \<^verbatim>\<open>_fields\<close> and calls \<^verbatim>\<open>setattr\<close> with that name. A
  parameter named like one of these attributes therefore overwrites it, and a parameter
  named like a property of the class (\<^verbatim>\<open>_device_prefix\<close>, \<^verbatim>\<open>_type_prefix\<close>, \<^verbatim>\<open>_str\<close>,
  and for a response \<^verbatim>\<open>_errorcode_field\<close>, \<^verbatim>\<open>_errorcode\<close>) makes \<^verbatim>\<open>setattr\<close> raise
  AttributeError, as the names \<^verbatim>\<open>__class__\<close> and \<^verbatim>\<open>__dict__\<close> make it raise TypeError.
  The camel-cased name, the help text and the time stamp play no part in what follows and
  are kept opaque.
\<close>

datatype attr =
    APy pyval
  | ANode apinode
  | AFields "string list"
  | ABool bool
  | AOpaque

datatype msg_class = BGEventC | BGCommandC | BGResponseC

record BGMsg =
  msg_values :: "pyval list"
  msg_class :: msg_class
  msg_dict :: "string \<rightharpoonup> attr"

definition properties :: "msg_class \<Rightarrow> string list" where
  "properties c =
     [''_device_prefix'', ''_type_prefix'', ''_str''] @
     (if c = BGResponseC then [''_errorcode_field'', ''_errorcode''] else [])"

definition node_device_name :: "apinode \<Rightarrow> string" where
  "node_device_name n = (case n of Cmd c \<Rightarrow> cmd_device_name c | Evt e \<Rightarrow> evt_device_name e)"

definition node_class_name :: "apinode \<Rightarrow> string" where
  "node_class_name n = (case n of Cmd c \<Rightarrow> cmd_class_name c | Evt e \<Rightarrow> evt_class_name e)"

definition node_name :: "apinode \<Rightarrow> string" where
  "node_name n = (case n of Cmd c \<Rightarrow> cmd_name c | Evt e \<Rightarrow> evt_name e)"

text \<open>
  The loop \<^verbatim>\<open>for i in range(len(values))\<close>: \<^verbatim>\<open>api_vals[i]\<close> raises IndexError past the
  parameter list, \<^verbatim>\<open>inst._fields.append\<close> needs \<^verbatim>\<open>_fields\<close> to be the list still, and
  \<^verbatim>\<open>setattr\<close> stores the value under the parameter's name.
\<close>

fun setattrs ::
  "msg_class \<Rightarrow> ApiParameter list \<Rightarrow> pyval list \<Rightarrow> (string \<rightharpoonup> attr)
     \<Rightarrow> error + (string \<rightharpoonup> attr)" where
  "setattrs c api_vals [] d = Inr d"
| "setattrs c [] (v # vs) d = Inl IndexError"
| "setattrs c (p # ps) (v # vs) d =
     (case d ''_fields'' of
        Some (AFields fs) \<Rightarrow>
          if param_name p \<in> set (properties c) then Inl AttributeError
          else if param_name p = ''__class__'' \<or> param_name p = ''__dict__'' then Inl TypeError
          else setattrs c ps vs
                 ((d(''_fields'' \<mapsto> AFields (fs @ [param_name p])))(param_name p \<mapsto> APy v))
      | _ \<Rightarrow> Inl AttributeError)"

definition BGMsg_new :: "msg_class \<Rightarrow> apinode \<Rightarrow> pyval list \<Rightarrow> bool \<Rightarrow> error + BGMsg" where
  "BGMsg_new c apinode vals is_response =
     ebind (setattrs c
              (case apinode of
                 Cmd cmd \<Rightarrow> if is_response then cmd_returns cmd else cmd_params cmd
               | Evt e \<Rightarrow> evt_params e)
              vals
              [''_apinode'' \<mapsto> ANode apinode,
               ''_device_name'' \<mapsto> APy (VStr (node_device_name apinode)),
               ''_class_name'' \<mapsto> APy (VStr (node_class_name apinode)),
               ''_msg_name'' \<mapsto> APy (VStr (node_name apinode)),
               ''__name__'' \<mapsto> AOpaque,
               ''__doc__'' \<mapsto> AOpaque,
               ''_timestamp'' \<mapsto> AOpaque,
               ''_fields'' \<mapsto> AFields []])
       (\<lambda>d. Inr \<lparr>msg_values = vals, msg_class = c, msg_dict = d\<rparr>)"

definition BGCommand_new :: "ApiCommand \<Rightarrow> pyval list \<Rightarrow> error + BGMsg" where
  "BGCommand_new apinode vals =
     ebind (BGMsg_new BGCommandC (Cmd apinode) vals False) (\<lambda>inst.
       Inr (inst\<lparr>msg_dict := (msg_dict inst)(''no_response'' \<mapsto> ABool (no_return apinode))\<rparr>))"

definition BGResponse_new :: "apinode \<Rightarrow> pyval list \<Rightarrow> error + BGMsg" where
  "BGResponse_new apinode vals = BGMsg_new BGResponseC apinode vals True"

text \<open>
  Reading an attribute of an instance. The attributes read below are in the instance
  dictionary whenever the message was built from as many values as it has parameters;
  an attribute missing there raises AttributeError.
\<close>

definition getattr :: "BGMsg \<Rightarrow> string \<Rightarrow> error + attr" where
  "getattr self name = (case msg_dict self name of None \<Rightarrow> Inl AttributeError | Some a \<Rightarrow> Inr a)"

text \<open>
  An attribute used as a dictionary key. For a message made by the constructors the three
  identity attributes hold a string or a parameter value; no other object is a key of the
  serializer's dictionaries.
\<close>

definition attr_key :: "attr \<Rightarrow> error + pyval" where
  "attr_key a = (case a of APy v \<Rightarrow> Inr v | _ \<Rightarrow> Inl KeyError)"

definition attr_truth :: "attr \<Rightarrow> bool" where
  "attr_truth a =
     (case a of
        ABool b \<Rightarrow> b
      | APy VNone \<Rightarrow> False
      | APy (VInt x) \<Rightarrow> x \<noteq> 0
      | APy (VBytes b) \<Rightarrow> b \<noteq> []
      | APy (VStr t) \<Rightarrow> t \<noteq> []
      | AFields fs \<Rightarrow> fs \<noteq> []
      | ANode n \<Rightarrow> True
      | AOpaque \<Rightarrow> True)"

definition errorcode_field :: "BGMsg \<Rightarrow> error + string option" where
  "errorcode_field self =
     ebind (getattr self ''_apinode'') (\<lambda>node.
       case node of
         ANode (Cmd c) \<Rightarrow>
           Inr (map_option param_name
                  (find (\<lambda>return_field. type_name (param_datatype return_field) = ''errorcode'')
                     (cmd_returns c)))
       | _ \<Rightarrow> Inl AttributeError)"

definition errorcode :: "BGMsg \<Rightarrow> error + attr" where
  "errorcode self =
     ebind (errorcode_field self) (\<lambda>field.
       if truthy field then getattr self (the field) else Inr (APy (VInt 0)))"

definition ERRORCODE_SUCCESS :: attr where "ERRORCODE_SUCCESS = APy (VInt 0)"

datatype command_exc =
    CommandFailedError BGMsg pyval BGMsg
  | CommandError string
  | ConnectionClosed
  | Raised error

text \<open>
  \<^verbatim>\<open>CommandFailedError.__init__\<close> formats the error code with \<^verbatim>\<open>{:#x}\<close>, which only
  an integer accepts (a string raises ValueError, any other object TypeError); then it
  stores the response, its error code and the command.
\<close>

definition CommandFailedError_init :: "BGMsg \<Rightarrow> BGMsg \<Rightarrow> command_exc" where
  "CommandFailedError_init response command =
     (case errorcode response of
        Inl e \<Rightarrow> Raised e
      | Inr a \<Rightarrow>
          (case a of
             APy (VInt x) \<Rightarrow> CommandFailedError response (VInt x) command
           | APy (VStr t) \<Rightarrow> Raised ValueError
           | _ \<Rightarrow> Raised TypeError))"

datatype write_outcome = Written | ConnectorTimeoutException

text \<open>
  \<^verbatim>\<open>BGApiConnHandler.send_command\<close>. The connection and the reader thread are the
  environment: \<open>conn_write\<close> says what \<^verbatim>\<open>self.conn.write\<close> does with the bytes, and
  \<open>slot\<close> is what \<^verbatim>\<open>response_queue.get\<close> yields within the timeout (\<open>None\<close> for
  \<^verbatim>\<open>queue.Empty\<close>).
\<close>

definition send_command ::
  "Serializer \<Rightarrow> (byte list \<Rightarrow> write_outcome)
     \<Rightarrow> (apinode \<times> hfields \<times> pyval list) option \<Rightarrow> BGMsg \<Rightarrow> command_exc + BGMsg option" where
  "send_command ser conn_write slot bgcmd =
     (case ebind (getattr bgcmd ''no_response'') (\<lambda>no_response.
           ebind (getattr bgcmd ''_device_name'') (\<lambda>dev.
           ebind (getattr bgcmd ''_class_name'') (\<lambda>cls.
           ebind (getattr bgcmd ''_msg_name'') (\<lambda>name.
           ebind (attr_key dev) (\<lambda>dev.
           ebind (attr_key cls) (\<lambda>cls.
           ebind (attr_key name) (\<lambda>name.
           ebind (Serializer_command ser dev cls name (msg_values bgcmd)) (\<lambda>bytes.
             Inr (attr_truth no_response, bytes))))))))) of
        Inl e \<Rightarrow> Inl (Raised e)
      | Inr (no_response, bytes) \<Rightarrow>
          (case conn_write bytes of
             ConnectorTimeoutException \<Rightarrow> Inl (CommandError ''Send timeout'')
           | Written \<Rightarrow>
               if no_response then Inr None
               else
                 (case slot of
                    None \<Rightarrow> Inl (CommandError ''No response'')
                  | Some (api_node, headers, vals) \<Rightarrow>
                      (case BGResponse_new api_node vals of
                         Inl e \<Rightarrow> Inl (Raised e)
                       | Inr response \<Rightarrow>
                           (case errorcode response of
                              Inl e \<Rightarrow> Inl (Raised e)
                            | Inr code \<Rightarrow>
                                if code \<noteq> ERRORCODE_SUCCESS
                                then Inl (CommandFailedError_init response bgcmd)
                                else Inr (Some response))))))"

text \<open>
  The facade \<^verbatim>\<open>apiCommand\<close> made by \<^verbatim>\<open>BGLib._createApiCommand\<close>; \<open>opened\<close> is
  \<^verbatim>\<open>lib.conn_handler\<close> being set. The command lock and the keep-awake hook do not
  change the result.
\<close>

definition identity :: "BGMsg \<Rightarrow> error + (attr \<times> attr \<times> attr)" where
  "identity m =
     ebind (getattr m ''_device_name'') (\<lambda>d.
     ebind (getattr m ''_class_name'') (\<lambda>c.
     ebind (getattr m ''_msg_name'') (\<lambda>n.
       Inr (d, c, n))))"

definition apiCommand ::
  "bool \<Rightarrow> Serializer \<Rightarrow> (byte list \<Rightarrow> write_outcome)
     \<Rightarrow> (apinode \<times> hfields \<times> pyval list) option \<Rightarrow> ApiCommand \<Rightarrow> pyval list
     \<Rightarrow> command_exc + BGMsg option" where
  "apiCommand opened ser conn_write slot apicmd args =
     (if \<not> opened then Inl ConnectionClosed
      else
        (case BGCommand_new apicmd args of
           Inl e \<Rightarrow> Inl (Raised e)
         | Inr cmd \<Rightarrow>
             (case send_command ser conn_write slot cmd of
                Inl e \<Rightarrow> Inl e
              | Inr response \<Rightarrow>
                  if no_return apicmd then Inr None
                  else
                    (case response of
                       None \<Rightarrow> Inl (Raised AttributeError)
                     | Some r \<Rightarrow>
                         (case ebind (identity r) (\<lambda>ri.
                               ebind (identity cmd) (\<lambda>ci. Inr (ri \<noteq> ci))) of
                            Inl e \<Rightarrow> Inl (Raised e)
                          | Inr differs \<Rightarrow>
                              if differs then Inl (CommandError ''Wrong response'')
                              else Inr (Some r))))))"


section \<open>Command failures and wrong responses\<close>

text \<open>
  The attribute names a return parameter must avoid for the response object to be built
  and read as usual: the properties of \<^verbatim>\<open>BGMsg\<close> and \<^verbatim>\<open>BGResponse\<close>, the two names
  \<^verbatim>\<open>setattr\<close> refuses for such values, and the two attributes the constructor and
  \<^verbatim>\<open>_errorcode_field\<close> read back.
\<close>

definition reserved_names :: "string list" where
  "reserved_names =
     [''_device_prefix'', ''_type_prefix'', ''_str'', ''_errorcode_field'', ''_errorcode'',
      ''__class__'', ''__dict__'', ''_fields'', ''_apinode'']"

text \<open>
  \<open>errorcode_index returns i\<close>: the \<open>i\<close>-th return parameter is the one
  \<^verbatim>\<open>_errorcode_field\<close> selects (the first whose datatype is named errorcode), and
  its name is a usable attribute name: not empty and not reused by a later return
  parameter.
\<close>

definition errorcode_index :: "ApiParameter list \<Rightarrow> nat \<Rightarrow> bool" where
  "errorcode_index returns i \<longleftrightarrow>
     i < length returns \<and>
     type_name (param_datatype (returns ! i)) = ''errorcode'' \<and>
     (\<forall>j < i. type_name (param_datatype (returns ! j)) \<noteq> ''errorcode'') \<and>
     param_name (returns ! i) \<noteq> [] \<and>
     (\<forall>j < length returns. i < j \<longrightarrow> param_name (returns ! j) \<noteq> param_name (returns ! i))"

definition error_name :: "error \<Rightarrow> string" where
  "error_name e =
     (case e of
        StructError \<Rightarrow> ''struct.error''
      | IndexError \<Rightarrow> ''IndexError''
      | KeyError \<Rightarrow> ''KeyError''
      | TypeError \<Rightarrow> ''TypeError''
      | ValueError \<Rightarrow> ''ValueError''
      | NameError \<Rightarrow> ''NameError''
      | AttributeError \<Rightarrow> ''AttributeError''
      | DeserializerApiMissingError d \<Rightarrow> ''DeserializerApiMissingError''
      | DeserializerEventMissingError c i \<Rightarrow> ''DeserializerEventMissingError''
      | ConnectorException \<Rightarrow> ''ConnectorException''
      | BinasciiError \<Rightarrow> ''binascii.Error'')"

text \<open>
  What the caller of a command observes: the exception and its error code, or the return
  with the values and the \<^verbatim>\<open>_msg_name\<close> of the response.
\<close>

definition outcome :: "command_exc + BGMsg option \<Rightarrow> string \<times> pyval \<times> pyval list" where
  "outcome r =
     (case r of
        Inl (CommandFailedError response code command) \<Rightarrow>
          (''CommandFailedError'', code, msg_values response)
      | Inl (CommandError msg) \<Rightarrow> (msg, VNone, [])
      | Inl ConnectionClosed \<Rightarrow> (''Connection is closed'', VNone, [])
      | Inl (Raised e) \<Rightarrow> (error_name e, VNone, [])
      | Inr None \<Rightarrow> (''returned None'', VNone, [])
      | Inr (Some response) \<Rightarrow>
          (''returned'',
           (case msg_dict response ''_msg_name'' of Some (APy n) \<Rightarrow> n | _ \<Rightarrow> VNone),
           msg_values response))"

text \<open>
  The reader thread: a frame of message type 0 is parsed and, while a command waits, put
  into the response queue; \<open>received\<close> is what \<^verbatim>\<open>response_queue.get\<close> then yields.
\<close>

definition received ::
  "Deserializer \<Rightarrow> byte list \<Rightarrow> byte list \<Rightarrow> (apinode \<times> hfields \<times> pyval list) option" where
  "received deser header payload =
     (case snd (Deserializer_parse deser header payload False True) of
        Inr (apicmdevt, (cmdevt, rest), params) \<Rightarrow>
          if cmdevt = MSG_COMMAND then Some (apicmdevt, (cmdevt, rest), params) else None
      | Inl e \<Rightarrow> None)"

definition can_fail_cmd :: ApiCommand where
  "can_fail_cmd = ApiCommand_init 2 ''can_fail'' []
     [ApiParameter_init 0 ''result'' ''uint16'' errorcode_type None None]"

definition command_a_cmd :: ApiCommand where
  "command_a_cmd = ApiCommand_init 3 ''command_a'' [] []"

definition command_b_cmd :: ApiCommand where
  "command_b_cmd = ApiCommand_init 4 ''command_b'' [] []"

text \<open>A second API whose only command returns two parameters of the errorcode datatype.\<close>

definition two_codes_cmd :: ApiCommand where
  "two_codes_cmd = ApiCommand_init 0 ''two_codes'' []
     [ApiParameter_init 0 ''result'' ''uint16'' errorcode_type None None,
      ApiParameter_init 1 ''status'' ''uint16'' errorcode_type None None]"

definition codes_class :: ApiClass where
  "codes_class =
     \<lparr>cls_index = 1, cls_name = ''simple'', cls_description = [],
      cls_enums = Map.empty, enum_group_names = [],
      cls_defines = Map.empty, define_group_names = [],
      cls_commands = by_name_and_index cmd_name cmd_index [two_codes_cmd],
      command_names = [''two_codes''],
      cls_events = Map.empty, event_names = []\<rparr>"

definition codes_api :: ParsedApi where
  "codes_api =
     \<lparr>device_id = 2, device_name = ''test'', api_name = ''test'', api_version = None,
      api_names = [''simple''], api_types = [''errorcode'' \<mapsto> errorcode_type],
      api_classes = by_name_and_index cls_name cls_index [codes_class]\<rparr>"

definition call :: "ApiCommand \<Rightarrow> pyval list \<Rightarrow> BGMsg" where
  "call apicmd args = projr (BGCommand_new apicmd args)"

definition always_written :: "byte list \<Rightarrow> write_outcome" where
  "always_written bytes = Written"

lemma find_first:
  "i < length xs \<Longrightarrow> P (xs ! i) \<Longrightarrow> (\<forall>j < i. \<not> P (xs ! j)) \<Longrightarrow> find P xs = Some (xs ! i)"
proof (induction xs arbitrary: i)
  case Nil
  then show ?case by simp
next
  case (Cons x xs)
  show ?case
  proof (cases i)
    case 0
    then show ?thesis using Cons.prems by simp
  next
    case (Suc k)
    have "\<not> P x" using Cons.prems(3) Suc by auto
    moreover have "find P xs = Some (xs ! k)"
      using Cons.prems Suc by (intro Cons.IH) auto
    ultimately show ?thesis using Suc by simp
  qed
qed

lemma reserved_property: "n \<notin> set reserved_names \<Longrightarrow> n \<notin> set (properties c)"
  by (auto simp: reserved_names_def properties_def)

lemma reserved_other:
  assumes "n \<notin> set reserved_names"
  shows "n \<noteq> ''__class__''" "n \<noteq> ''__dict__''" "n \<noteq> ''_fields''" "n \<noteq> ''_apinode''"
  using assms by (auto simp: reserved_names_def)

text \<open>
  With ordinary parameter names the loop of \<^verbatim>\<open>BGMsg.__new__\<close> ends, leaves every
  attribute that is no parameter name (but \<^verbatim>\<open>_fields\<close>) as it was, and leaves under each
  parameter name the value of the last parameter of that name.
\<close>

lemma setattrs_ordinary:
  assumes "d ''_fields'' = Some (AFields fs)"
    and "length vs \<le> length ps"
    and "\<forall>p \<in> set ps. param_name p \<notin> set reserved_names"
  shows "\<exists>d'. setattrs c ps vs d = Inr d' \<and>
           (\<forall>n. n \<noteq> ''_fields'' \<and> (\<forall>p \<in> set (take (length vs) ps). param_name p \<noteq> n)
                  \<longrightarrow> d' n = d n) \<and>
           (\<forall>i < length vs.
              (\<forall>j < length vs. i < j \<longrightarrow> param_name (ps ! j) \<noteq> param_name (ps ! i))
                \<longrightarrow> d' (param_name (ps ! i)) = Some (APy (vs ! i)))"
  using assms
proof (induction ps arbitrary: vs d fs)
  case Nil
  then show ?case by simp
next
  case (Cons p ps)
  show ?case
  proof (cases vs)
    case Nil
    then show ?thesis by simp
  next
    case (Cons v vs')
    let ?n = "param_name p"
    let ?d = "(d(''_fields'' \<mapsto> AFields (fs @ [?n])))(?n \<mapsto> APy v)"
    have p: "?n \<notin> set reserved_names" using Cons.prems(3) by simp
    have f: "?d ''_fields'' = Some (AFields (fs @ [?n]))"
      using reserved_other(3) [OF p] by simp
    have l: "length vs' \<le> length ps" using Cons.prems(2) Cons by simp
    have r: "\<forall>q \<in> set ps. param_name q \<notin> set reserved_names" using Cons.prems(3) by simp
    obtain d' where d': "setattrs c ps vs' ?d = Inr d'"
      "\<forall>n. n \<noteq> ''_fields'' \<and> (\<forall>q \<in> set (take (length vs') ps). param_name q \<noteq> n)
             \<longrightarrow> d' n = ?d n"
      "\<forall>i < length vs'.
          (\<forall>j < length vs'. i < j \<longrightarrow> param_name (ps ! j) \<noteq> param_name (ps ! i))
            \<longrightarrow> d' (param_name (ps ! i)) = Some (APy (vs' ! i))"
      using Cons.IH [where d = ?d, OF f l r] by blast
    have step: "setattrs c (p # ps) vs d = Inr d'"
      using d'(1) Cons Cons.prems(1) reserved_property [OF p] reserved_other(1,2) [OF p]
      by simp
    have keep: "\<forall>n. n \<noteq> ''_fields'' \<and>
                  (\<forall>q \<in> set (take (length vs) (p # ps)). param_name q \<noteq> n) \<longrightarrow> d' n = d n"
      using d'(2) Cons by auto
    have last: "\<forall>i < length vs.
        (\<forall>j < length vs. i < j \<longrightarrow> param_name ((p # ps) ! j) \<noteq> param_name ((p # ps) ! i))
          \<longrightarrow> d' (param_name ((p # ps) ! i)) = Some (APy (vs ! i))"
    proof (intro allI impI)
      fix i
      assume i: "i < length vs"
        and u: "\<forall>j < length vs. i < j \<longrightarrow> param_name ((p # ps) ! j) \<noteq> param_name ((p # ps) ! i)"
      show "d' (param_name ((p # ps) ! i)) = Some (APy (vs ! i))"
      proof (cases i)
        case 0
        have "\<forall>q \<in> set (take (length vs') ps). param_name q \<noteq> ?n"
        proof
          fix q assume "q \<in> set (take (length vs') ps)"
          then obtain k where k: "k < length vs'" "k < length ps" "ps ! k = q"
            by (auto simp: in_set_conv_nth)
          then show "param_name q \<noteq> ?n"
            using u [rule_format, of "Suc k"] 0 Cons by auto
        qed
        then have "d' ?n = ?d ?n" using d'(2) reserved_other(3) [OF p] by blast
        then show ?thesis using 0 Cons by simp
      next
        case (Suc k)
        have "\<forall>j < length vs'. k < j \<longrightarrow> param_name (ps ! j) \<noteq> param_name (ps ! k)"
        proof (intro allI impI)
          fix j assume "j < length vs'" "k < j"
          then show "param_name (ps ! j) \<noteq> param_name (ps ! k)"
            using u [rule_format, of "Suc j"] Suc Cons by auto
        qed
        then show ?thesis using d'(3) [rule_format, of k] i Suc Cons by simp
      qed
    qed
    show ?thesis using step keep last by blast
  qed
qed

lemma response_errorcode:
  assumes "length vals \<le> length (cmd_returns c)"
    and "\<forall>p \<in> set (cmd_returns c). param_name p \<notin> set reserved_names"
    and "errorcode_index (cmd_returns c) i"
    and "i < length vals"
  shows "\<exists>response. BGResponse_new (Cmd c) vals = Inr response \<and>
           msg_values response = vals \<and> errorcode response = Inr (APy (vals ! i))"
proof -
  let ?P = "\<lambda>return_field. type_name (param_datatype return_field) = ''errorcode''"
  let ?d = "[''_apinode'' \<mapsto> ANode (Cmd c),
             ''_device_name'' \<mapsto> APy (VStr (node_device_name (Cmd c))),
             ''_class_name'' \<mapsto> APy (VStr (node_class_name (Cmd c))),
             ''_msg_name'' \<mapsto> APy (VStr (node_name (Cmd c))),
             ''__name__'' \<mapsto> AOpaque,
             ''__doc__'' \<mapsto> AOpaque,
             ''_timestamp'' \<mapsto> AOpaque,
             ''_fields'' \<mapsto> AFields []]"
  from assms(3) have i: "i < length (cmd_returns c)" "?P (cmd_returns c ! i)"
    "\<forall>j < i. \<not> ?P (cmd_returns c ! j)" "param_name (cmd_returns c ! i) \<noteq> []"
    "\<forall>j < length (cmd_returns c). i < j \<longrightarrow>
        param_name (cmd_returns c ! j) \<noteq> param_name (cmd_returns c ! i)"
    by (auto simp: errorcode_index_def)
  have f: "find ?P (cmd_returns c) = Some (cmd_returns c ! i)"
    using find_first [of i "cmd_returns c" ?P] i(1-3) by blast
  have fs: "?d ''_fields'' = Some (AFields [])" by simp
  obtain d' where d': "setattrs BGResponseC (cmd_returns c) vals ?d = Inr d'"
    "\<forall>n. n \<noteq> ''_fields'' \<and>
        (\<forall>p \<in> set (take (length vals) (cmd_returns c)). param_name p \<noteq> n) \<longrightarrow> d' n = ?d n"
    "\<forall>k < length vals.
        (\<forall>j < length vals. k < j \<longrightarrow>
            param_name (cmd_returns c ! j) \<noteq> param_name (cmd_returns c ! k))
          \<longrightarrow> d' (param_name (cmd_returns c ! k)) = Some (APy (vals ! k))"
    using setattrs_ordinary [where d = ?d, OF fs assms(1,2)] by blast
  have "\<forall>p \<in> set (take (length vals) (cmd_returns c)). param_name p \<noteq> ''_apinode''"
    using assms(2) reserved_other(4) by (meson in_set_takeD)
  then have node: "d' ''_apinode'' = Some (ANode (Cmd c))"
    using d'(2) [rule_format, of "''_apinode''"] by simp
  have val: "d' (param_name (cmd_returns c ! i)) = Some (APy (vals ! i))"
    using d'(3) [rule_format, of i] assms(4,1) i(5) by simp
  show ?thesis
    using d'(1) f node val i(4)
    by (simp add: BGResponse_new_def BGMsg_new_def errorcode_def errorcode_field_def
        getattr_def truthy_def)
qed

text \<open>
  C5 (as amended). When the first return parameter whose datatype is named errorcode has
  an ordinary name (not empty, not reused by a later return parameter, and no return
  parameter is named like an attribute the response object itself uses) and its decoded
  value is the integer \<open>v\<close>, \<^verbatim>\<open>send_command\<close> raises CommandFailedError carrying the
  whole response and \<open>errorcode = v\<close> when \<open>v\<close> is not zero, and returns the response
  when \<open>v\<close> is zero.
\<close>

theorem C5_command_failed:
  assumes "msg_dict bgcmd ''no_response'' = Some (ABool False)"
    and "msg_dict bgcmd ''_device_name'' = Some (APy dev)"
    and "msg_dict bgcmd ''_class_name'' = Some (APy cls)"
    and "msg_dict bgcmd ''_msg_name'' = Some (APy name)"
    and "Serializer_command ser dev cls name (msg_values bgcmd) = Inr bytes"
    and "conn_write bytes = Written"
    and "length vals \<le> length (cmd_returns c)"
    and "\<forall>p \<in> set (cmd_returns c). param_name p \<notin> set reserved_names"
    and "errorcode_index (cmd_returns c) i"
    and "i < length vals"
    and "vals ! i = VInt v"
  shows "\<exists>response. BGResponse_new (Cmd c) vals = Inr response \<and>
           msg_values response = vals \<and>
           send_command ser conn_write (Some (Cmd c, headers, vals)) bgcmd =
             (if v \<noteq> 0 then Inl (CommandFailedError response (VInt v) bgcmd)
              else Inr (Some response))"
proof -
  obtain response where r: "BGResponse_new (Cmd c) vals = Inr response"
    "msg_values response = vals" "errorcode response = Inr (APy (vals ! i))"
    using response_errorcode [OF assms(7-10)] by blast
  have "send_command ser conn_write (Some (Cmd c, headers, vals)) bgcmd =
          (if v \<noteq> 0 then Inl (CommandFailedError response (VInt v) bgcmd)
           else Inr (Some response))"
    using assms(1-6,11) r
    by (simp add: send_command_def getattr_def attr_key_def attr_truth_def
        ERRORCODE_SUCCESS_def CommandFailedError_init_def)
  then show ?thesis using r by blast
qed

lemma call_can_fail:
  "msg_dict (call can_fail_cmd []) ''no_response'' = Some (ABool False)"
  "msg_dict (call can_fail_cmd []) ''_device_name'' = Some (APy (VStr ''test''))"
  "msg_dict (call can_fail_cmd []) ''_class_name'' = Some (APy (VStr ''simple''))"
  "msg_dict (call can_fail_cmd []) ''_msg_name'' = Some (APy (VStr ''can_fail''))"
  "msg_values (call can_fail_cmd []) = []"
  by (simp_all add: call_def BGCommand_new_def BGMsg_new_def can_fail_cmd_def
      ApiCommand_init_def node_device_name_def node_class_name_def node_name_def)

theorem C5_command_failed_witness:
  "outcome (send_command (Serializer_init [test_api]) always_written
              (Some (Cmd can_fail_cmd, (0, 2, 2, 1, 2), [VInt 0x1234])) (call can_fail_cmd []))
     = (''CommandFailedError'', VInt 0x1234, [VInt 0x1234]) \<and>
   outcome (send_command (Serializer_init [test_api]) always_written
              (Some (Cmd can_fail_cmd, (0, 2, 2, 1, 2), [VInt 0])) (call can_fail_cmd []))
     = (''returned'', VStr ''can_fail'', [VInt 0])"
proof -
  let ?cmd = "call can_fail_cmd []"
  have s: "Serializer_command (Serializer_init [test_api]) (VStr ''test'') (VStr ''simple'')
             (VStr ''can_fail'') (msg_values ?cmd) = Inr [0x10, 0, 1, 2]"
    unfolding call_can_fail(5) by code_simp
  have w: "always_written [0x10, 0, 1, 2] = Written" by (simp add: always_written_def)
  have l: "length [VInt 0x1234] \<le> length (cmd_returns can_fail_cmd)"
    "length [VInt 0] \<le> length (cmd_returns can_fail_cmd)"
    by (simp_all add: can_fail_cmd_def ApiCommand_init_def)
  have o: "\<forall>p \<in> set (cmd_returns can_fail_cmd). param_name p \<notin> set reserved_names"
    by (simp add: can_fail_cmd_def ApiCommand_init_def ApiParameter_init_def reserved_names_def)
  have e: "errorcode_index (cmd_returns can_fail_cmd) 0"
    by (simp add: errorcode_index_def can_fail_cmd_def ApiCommand_init_def
        ApiParameter_init_def errorcode_type_def)
  obtain r1 where r1: "msg_values r1 = [VInt 0x1234]"
    "send_command (Serializer_init [test_api]) always_written
       (Some (Cmd can_fail_cmd, (0, 2, 2, 1, 2), [VInt 0x1234])) ?cmd
     = Inl (CommandFailedError r1 (VInt 0x1234) ?cmd)"
    using C5_command_failed [where conn_write = always_written and v = "0x1234"
        and headers = "(0, 2, 2, 1, 2)" and i = 0, OF call_can_fail(1-4) s w l(1) o e] by auto
  obtain r2 where r2: "BGResponse_new (Cmd can_fail_cmd) [VInt 0] = Inr r2"
    "msg_values r2 = [VInt 0]"
    "send_command (Serializer_init [test_api]) always_written
       (Some (Cmd can_fail_cmd, (0, 2, 2, 1, 2), [VInt 0])) ?cmd = Inr (Some r2)"
    using C5_command_failed [where conn_write = always_written and v = 0
        and headers = "(0, 2, 2, 1, 2)" and i = 0, OF call_can_fail(1-4) s w l(2) o e] by auto
  have "msg_dict r2 ''_msg_name'' = Some (APy (VStr ''can_fail''))"
    using r2(1)
    by (auto simp: BGResponse_new_def BGMsg_new_def node_name_def can_fail_cmd_def
        ApiCommand_init_def ApiParameter_init_def properties_def)
  then show ?thesis using r1 r2 by (simp add: outcome_def)
qed

text \<open>
  A response with two return parameters of the errorcode datatype, the second of them not
  zero: only the first is looked at, and the command returns.
\<close>

theorem C5_second_errorcode_counterexample:
  "received (Deserializer_init [codes_api]) [0x10, 0x04, 1, 0] [0, 0, 5, 0]
     = Some (Cmd two_codes_cmd, (0, 2, 4, 1, 0), [VInt 0, VInt 5]) \<and>
   outcome (apiCommand True (Serializer_init [codes_api]) always_written
              (received (Deserializer_init [codes_api]) [0x10, 0x04, 1, 0] [0, 0, 5, 0])
              two_codes_cmd [])
     = (''returned'', VStr ''two_codes'', [VInt 0, VInt 5])"
  by code_simp

text \<open>
  C6. A response whose (device, class, command) triple differs from the outgoing command's
  is to raise CommandError "Wrong response". The facade makes that comparison under
  \<^verbatim>\<open># Verify correct response\<close> only after \<^verbatim>\<open>send_command\<close> has returned, and
  \<^verbatim>\<open>send_command\<close> raises on the error code of whatever response arrived. Here
  \<^verbatim>\<open>command_a\<close> is called and the response frame of \<^verbatim>\<open>can_fail\<close> arrives: with the
  error code 0x1234 in its payload the call raises CommandFailedError, with an empty
  payload it raises TypeError; the response frame of \<^verbatim>\<open>command_b\<close>, which has no
  error code, does raise "Wrong response".
\<close>

theorem C6_errorcode_before_identity:
  "received (Deserializer_init [test_api]) [0x10, 0x02, 1, 2] [0x34, 0x12]
     = Some (Cmd can_fail_cmd, (0, 2, 2, 1, 2), [VInt 0x1234]) \<and>
   outcome (apiCommand True (Serializer_init [test_api]) always_written
              (received (Deserializer_init [test_api]) [0x10, 0x02, 1, 2] [0x34, 0x12])
              command_a_cmd [])
     = (''CommandFailedError'', VInt 0x1234, [VInt 0x1234]) \<and>
   received (Deserializer_init [test_api]) [0x10, 0x00, 1, 2] []
     = Some (Cmd can_fail_cmd, (0, 2, 0, 1, 2), [VNone]) \<and>
   outcome (apiCommand True (Serializer_init [test_api]) always_written
              (received (Deserializer_init [test_api]) [0x10, 0x00, 1, 2] [])
              command_a_cmd [])
     = (''TypeError'', VNone, []) \<and>
   outcome (apiCommand True (Serializer_init [test_api]) always_written
              (received (Deserializer_init [test_api]) [0x10, 0x00, 1, 4] [])
              command_a_cmd [])
     = (''Wrong response'', VNone, [])"
  by code_simp


section \<open>Validator-aware encoding and decoding\<close>

definition parsed_values ::
  "warning list \<times> (error + (apinode \<times> hfields \<times> pyval list)) \<Rightarrow> error + pyval list" where
  "parsed_values r = (case snd r of Inl e \<Rightarrow> Inl e | Inr (node, hf, params) \<Rightarrow> Inr params)"

lemma validated_argument_raises:
  "truthy (validator_id apiparam) \<Longrightarrow>
   Serializer_convertEnumDefine apiparam val enums defs = Inl NameError"
  by (simp add: Serializer_convertEnumDefine_def builtins_basestring_def)

lemma unvalidated_argument:
  "\<not> truthy (validator_id apiparam) \<Longrightarrow>
   Serializer_convertEnumDefine apiparam val enums defs = toInt val"
  by (simp add: Serializer_convertEnumDefine_def)

lemma numeric_literals:
  "toInt (VStr ''0x12'') = Inr 18" "toInt (VStr ''0b101'') = Inr 5" "toInt (VStr ''42'') = Inr 42"
  by code_simp+

text \<open>
  C2. The code does not do what the claim says: every argument of a parameter that carries
  a validator makes \<^verbatim>\<open>Serializer.command\<close> raise NameError, whether it is an enum
  symbol, a define expression or a numeric literal.
\<close>

theorem C2_validated_arguments_raise:
  "Serializer_command (Serializer_init [test_api]) (VStr ''test'') (VStr ''simple'')
     (VStr ''set_color'') [VStr ''green''] = Inl NameError \<and>
   Serializer_command (Serializer_init [test_api]) (VStr ''test'') (VStr ''simple'')
     (VStr ''set_flags'') [VStr ''a|b''] = Inl NameError \<and>
   Serializer_command (Serializer_init [test_api]) (VStr ''test'') (VStr ''simple'')
     (VStr ''set_color'') [VStr ''1''] = Inl NameError"
  by code_simp

lemma enum_decoding:
  "truthy (validator_id apiparam) \<Longrightarrow> validator_type apiparam = Some ''enum'' \<Longrightarrow>
   enums (the (validator_id apiparam)) = Some grp \<Longrightarrow> enum_items grp val = Some member \<Longrightarrow>
   Deserializer_convertEnumDefine apiparam val enums defs = Inr (VStr (ev_name member))"
  by (simp add: Deserializer_convertEnumDefine_def)

lemma define_decoding_raises:
  "truthy (validator_id apiparam) \<Longrightarrow> validator_type apiparam = Some ''define'' \<Longrightarrow>
   Deserializer_convertEnumDefine apiparam val enums defs = Inl AttributeError"
  by (simp add: Deserializer_convertEnumDefine_def)

text \<open>
  C4. The enum half holds (value 1 of the group color decodes to its member's name), the
  define half does not: decoding the define-validated value 3 raises AttributeError instead
  of giving the joined names, although with validator-aware decoding switched off the same
  frame decodes to 3.
\<close>

theorem C4_define_decoding_raises:
  "parsed_values (Deserializer_parse (Deserializer_init [test_api])
                    [0x10, 0x01, 1, 6] [0x03] False True) = Inl AttributeError \<and>
   parsed_values (Deserializer_parse (Deserializer_init [test_api])
                    [0x10, 0x01, 1, 6] [0x03] False False) = Inr [VInt 3] \<and>
   parsed_values (Deserializer_parse (Deserializer_init [test_api])
                    [0x10, 0x01, 1, 5] [0x01] False True) = Inr [VStr ''green'']"
  by code_simp


section \<open>Payloads shorter or longer than the parameter list\<close>





































end
